theory Spec2Isabelle
  imports Complex_Main "HOL-Library.Char_ord" "HOL-Library.List_Lexorder"
begin

section \<open>Numbers\<close>

text \<open>
  The TypeScript sources compute on JavaScript numbers (IEEE doubles). The model takes a
  finite number as a \<^typ>\<open>real\<close>, so rounding of doubles is not part of it. The
  non-finite values are kept where the source tests for them (\<open>Number.isFinite\<close>).
\<close>

datatype jsnum = Finite real | NaN | PosInfinity | NegInfinity

text \<open>\<open>Number.isFinite(x)\<close>\<close>

fun isFinite :: "jsnum \<Rightarrow> bool" where
  "isFinite (Finite x) = True"
| "isFinite NaN = False"
| "isFinite PosInfinity = False"
| "isFinite NegInfinity = False"

text \<open>\<open>x <= 0\<close> on a JavaScript number: every comparison with NaN is false.\<close>

fun le_zero :: "jsnum \<Rightarrow> bool" where
  "le_zero (Finite x) = (x \<le> 0)"
| "le_zero NaN = False"
| "le_zero PosInfinity = False"
| "le_zero NegInfinity = True"

text \<open>
  \<open>x || d\<close> on a nullable number column: \<open>null\<close> and \<open>0\<close> are falsy and give the
  default \<open>d\<close>.
\<close>

definition or_default :: "'a::zero option \<Rightarrow> 'a \<Rightarrow> 'a" where
  "or_default x d = (case x of None \<Rightarrow> d | Some v \<Rightarrow> if v = 0 then d else v)"

section \<open>Indicator engine (signal-scanner)\<close>

record bands =
  upper :: real
  middle :: real
  lower :: real

text \<open>
  The result of \<open>calculateBB\<close>: \<open>null\<close>, the three bands, or (for \<open>period = 0\<close>, where
  the source divides by zero) three non-finite numbers.
\<close>

datatype bb_result = Absent | Bands bands | NonFiniteBands

text \<open>
  \<open>prices.slice(-period)\<close> for \<open>period \<le> prices.length\<close>: the last \<open>period\<close> elements;
  \<open>slice(-0)\<close> is \<open>slice(0)\<close>, the whole array.
\<close>

definition slice_last :: "nat \<Rightarrow> 'a list \<Rightarrow> 'a list" where
  "slice_last period prices =
     (if period = 0 then prices else drop (length prices - period) prices)"

text \<open>
  \<open>calculateBB(prices, period, stdDev)\<close>. The two \<open>reduce\<close> calls are left folds from 0.
  The period is a count (\<open>bb_period INTEGER\<close>).
\<close>

definition calculateBB :: "real list \<Rightarrow> nat \<Rightarrow> real \<Rightarrow> bb_result" where
  "calculateBB prices period stdDev =
     (if length prices < period then Absent
      else if period = 0 then NonFiniteBands
      else
        let slice = slice_last period prices;
            mean = foldl (\<lambda>a b. a + b) 0 slice / real period;
            variance = foldl (\<lambda>sum p. sum + (p - mean) ^ 2) 0 slice / real period;
            std = sqrt variance
        in Bands \<lparr>upper = mean + std * stdDev, middle = mean, lower = mean - std * stdDev\<rparr>)"

record bar =
  high :: real
  low :: real
  close :: real
  volume :: real

definition typicalPrice :: "bar \<Rightarrow> real" where
  "typicalPrice b = (high b + low b + close b) / 3"

text \<open>The loop of \<open>calculateVWAP\<close>: the state is (cumulativeTPV, cumulativeVolume).\<close>

fun vwap_loop :: "real \<times> real \<Rightarrow> bar list \<Rightarrow> real \<times> real" where
  "vwap_loop acc [] = acc"
| "vwap_loop (cumulativeTPV, cumulativeVolume) (b # bars) =
     vwap_loop (cumulativeTPV + typicalPrice b * volume b, cumulativeVolume + volume b) bars"

definition calculateVWAP :: "bar list \<Rightarrow> real" where
  "calculateVWAP bars =
     (case vwap_loop (0, 0) bars of
        (cumulativeTPV, cumulativeVolume) \<Rightarrow>
          if cumulativeVolume > 0 then cumulativeTPV / cumulativeVolume else 0)"

section \<open>Signal detector (signal-scanner)\<close>

datatype signal_type =
  bb_breakout_up | bb_breakout_down | bb_mean_reversion_up | bb_mean_reversion_down
  | vwap_cross_up | vwap_cross_down | custom

text \<open>
  The detection block of the scan loop: \<open>detectedSignals\<close> is built by pushes in this
  order. \<open>if (vwap)\<close> is false for \<open>null\<close> and for 0.
\<close>

definition detectedSignals :: "real \<Rightarrow> real \<Rightarrow> bands \<Rightarrow> real option \<Rightarrow> signal_type list" where
  "detectedSignals previousPrice currentPrice bb vwap =
     (if previousPrice \<le> upper bb \<and> currentPrice > upper bb then [bb_breakout_up] else [])
   @ (if previousPrice \<ge> lower bb \<and> currentPrice < lower bb then [bb_breakout_down] else [])
   @ (if previousPrice < lower bb \<and> currentPrice > lower bb then [bb_mean_reversion_up] else [])
   @ (if previousPrice > upper bb \<and> currentPrice < upper bb then [bb_mean_reversion_down] else [])
   @ (case vwap of
        None \<Rightarrow> []
      | Some v \<Rightarrow>
          if v = 0 then []
          else (if previousPrice \<le> v \<and> currentPrice > v then [vwap_cross_up] else [])
             @ (if previousPrice \<ge> v \<and> currentPrice < v then [vwap_cross_down] else []))"

section \<open>Tables of the store (auto-invest)\<close>

text \<open>
  Rows are identified by their primary key (a UUID in the database, a number here);
  instants are numbers. A nullable column is an \<open>option\<close>.
\<close>

type_synonym uuid = nat
type_synonym timestamp = nat

datatype order_side = buy | sell

datatype order_status = pending | submitted | filled | partial | cancelled | rejected

record trading_settings =
  ts_user_id :: uuid
  auto_trade_enabled :: bool
  max_daily_trades :: "int option"
  max_daily_loss :: "real option"
  max_position_size :: "real option"
  trading_hours_start :: string
  trading_hours_end :: string
  preferred_broker :: "string option"

record signal_rule =
  sr_id :: uuid
  sr_user_id :: uuid
  option_strategy :: string
  trailing_stop_percent :: "real option"
  stop_loss_percent :: "real option"
  take_profit_percent :: "real option"
  position_size_percent :: "real option"
  max_position_value :: "real option"

record signal =
  sg_id :: uuid
  sg_user_id :: uuid
  sg_symbol :: string
  sg_signal_type :: signal_type
  price_at_signal :: jsnum
  executed :: bool
  signal_rule_id :: "uuid option"

record order_rec =
  o_id :: uuid
  o_user_id :: uuid
  o_signal_id :: "uuid option"
  ibkr_order_id :: string
  o_symbol :: string
  o_side :: order_side
  o_quantity :: int
  limit_price :: "real option"
  filled_price :: "real option"
  o_status :: order_status
  o_strategy :: string
  o_trailing_stop_percent :: "real option"
  o_stop_loss_price :: "real option"
  o_take_profit_price :: "real option"
  o_broker :: string
  created_at :: timestamp

record position =
  p_id :: uuid
  p_user_id :: uuid
  p_order_id :: "uuid option"
  p_symbol :: string
  p_quantity :: int
  avg_cost :: real
  current_price :: "real option"
  unrealized_pnl :: "real option"
  trailing_stop_price :: "real option"
  p_stop_loss_price :: "real option"
  p_take_profit_price :: "real option"
  is_open :: bool
  p_broker :: string

record store =
  trading_settings_tbl :: "trading_settings list"
  signal_rules_tbl :: "signal_rule list"
  signals_tbl :: "signal list"
  orders_tbl :: "order_rec list"
  positions_tbl :: "position list"

section \<open>Risk gate and position sizing (auto-invest)\<close>

text \<open>
  \<open>isWithinTradingHours(start, end)\<close>: the source compares the strings, \<open>currentTime\<close>
  being the clock's \<open>HH:MM:SS\<close> in New York. The clock reading is a parameter.
  JavaScript orders strings by their code units, which for these strings is the
  lexicographic order of the characters.
\<close>

definition isWithinTradingHours :: "string \<Rightarrow> string \<Rightarrow> string \<Rightarrow> bool" where
  "isWithinTradingHours currentTime start end' = (currentTime \<ge> start \<and> currentTime \<le> end')"

text \<open>
  \<open>calculatePositionSize(settings, rule, currentPrice, accountValue = 100000)\<close>.
  After the two validations both numbers are finite.
\<close>

definition calculatePositionSize ::
  "trading_settings \<Rightarrow> signal_rule \<Rightarrow> jsnum \<Rightarrow> jsnum \<Rightarrow> int" where
  "calculatePositionSize settings rule currentPrice accountValue =
     (if le_zero currentPrice \<or> \<not> isFinite currentPrice then 0
      else if le_zero accountValue \<or> \<not> isFinite accountValue then 0
      else
        (case (currentPrice, accountValue) of
           (Finite price, Finite account) \<Rightarrow>
             let maxFromSettings = max 0 (min 1000000 (or_default (max_position_size settings) 10000));
                 maxFromRule = max 0 (min 1000000 (or_default (max_position_value rule) 10000));
                 positionSizePercent = max 0.1 (min 100 (or_default (position_size_percent rule) 5));
                 percentageSize = (account * positionSizePercent) / 100;
                 maxValue = min (min maxFromSettings maxFromRule) percentageSize;
                 quantity = \<lfloor>maxValue / price\<rfloor>
             in max 0 (min 1000000 quantity)
         | _ \<Rightarrow> 0))"

text \<open>The default of the fourth parameter, used by the only call.\<close>

definition defaultAccountValue :: jsnum where
  "defaultAccountValue = Finite 100000"

section \<open>The execute-pending-signals pass (auto-invest)\<close>

text \<open>
  What the pass reads from outside the store: the clock, the identifiers the database and
  the random tag generator hand out, and which writes of the pass fail, each given for
  the signal it belongs to: the insert of the order (whose error the source checks), the
  update that marks the signal executed and the insert of the position (whose results the
  source does not look at). Store reads happen as written. One reading of the clock
  serves a whole pass.
\<close>

record exec_env =
  current_time :: string
  today_start :: timestamp
  now_ts :: timestamp
  order_insert_fails :: "uuid \<Rightarrow> bool"
  signal_update_fails :: "uuid \<Rightarrow> bool"
  position_insert_fails :: "uuid \<Rightarrow> bool"
  new_order_id :: "uuid \<Rightarrow> uuid"
  new_position_id :: "uuid \<Rightarrow> uuid"
  order_tag :: "uuid \<Rightarrow> string"

datatype skip_entry = SkipUser uuid string | SkipSignal uuid string

record executed_entry =
  ex_symbol :: string
  ex_side :: order_side
  ex_quantity :: int
  ex_price :: real
  ex_orderId :: uuid

record exec_state =
  st :: store
  executed_out :: "executed_entry list"
  skipped_out :: "skip_entry list"

definition skip :: "skip_entry \<Rightarrow> exec_state \<Rightarrow> exec_state" where
  "skip e s = s\<lparr>skipped_out := skipped_out s @ [e]\<rparr>"

text \<open>The count query: orders of the user created since midnight (UTC) of today.\<close>

definition todaysTrades :: "exec_env \<Rightarrow> store \<Rightarrow> uuid \<Rightarrow> nat" where
  "todaysTrades env db uid =
     length (filter (\<lambda>r. o_user_id r = uid \<and> created_at r \<ge> today_start env) (orders_tbl db))"

definition maxDailyTrades :: "trading_settings \<Rightarrow> int" where
  "maxDailyTrades settings = max 1 (min 1000 (or_default (max_daily_trades settings) 10))"

definition todaysOrders :: "exec_env \<Rightarrow> store \<Rightarrow> uuid \<Rightarrow> order_rec list" where
  "todaysOrders env db uid =
     filter (\<lambda>r. o_user_id r = uid \<and> o_status r = filled \<and> created_at r \<ge> today_start env)
       (orders_tbl db)"

fun dailyPnL_loop :: "real \<Rightarrow> order_rec list \<Rightarrow> real" where
  "dailyPnL_loop dailyPnL [] = dailyPnL"
| "dailyPnL_loop dailyPnL (order # rest) =
     dailyPnL_loop
       (case filled_price order of
          None \<Rightarrow> dailyPnL
        | Some fp \<Rightarrow>
            if fp \<noteq> 0 \<and> o_quantity order \<noteq> 0
            then dailyPnL + (if o_side order = buy then - fp * real_of_int (o_quantity order)
                             else fp * real_of_int (o_quantity order))
            else dailyPnL)
       rest"

definition maxDailyLoss :: "trading_settings \<Rightarrow> real" where
  "maxDailyLoss settings = max 0 (min 1000000 (or_default (max_daily_loss settings) 1000))"

text \<open>
  The selection of the signals of a user: not executed, with a rule
  (\<open>signal_rules!inner\<close> keeps the signals whose rule exists).
\<close>

definition find_rule :: "store \<Rightarrow> uuid \<Rightarrow> signal_rule option" where
  "find_rule db rid = find (\<lambda>r. sr_id r = rid) (signal_rules_tbl db)"

definition pending_signals :: "store \<Rightarrow> uuid \<Rightarrow> (signal \<times> signal_rule) list" where
  "pending_signals db uid =
     List.map_filter
       (\<lambda>sg. if sg_user_id sg = uid \<and> \<not> executed sg
             then (case signal_rule_id sg of
                     None \<Rightarrow> None
                   | Some rid \<Rightarrow> map_option (Pair sg) (find_rule db rid))
             else None)
       (signals_tbl db)"

definition side_of :: "signal_type \<Rightarrow> order_side" where
  "side_of t =
     (if t \<in> set [bb_breakout_up, bb_mean_reversion_up, vwap_cross_up] then buy else sell)"

text \<open>\<open>(side === 'buy' ? 1 : -1)\<close>\<close>

definition sign_of :: "order_side \<Rightarrow> real" where
  "sign_of side = (if side = buy then 1 else - 1)"

definition stopLossPercent :: "signal_rule \<Rightarrow> real option" where
  "stopLossPercent rule =
     (case stop_loss_percent rule of
        None \<Rightarrow> None
      | Some v \<Rightarrow> if v = 0 then None else Some (max 0.1 (min 50 v)))"

definition takeProfitPercent :: "signal_rule \<Rightarrow> real option" where
  "takeProfitPercent rule =
     (case take_profit_percent rule of
        None \<Rightarrow> None
      | Some v \<Rightarrow> if v = 0 then None else Some (max 0.1 (min 100 v)))"

definition stopLossPrice :: "signal_rule \<Rightarrow> order_side \<Rightarrow> real \<Rightarrow> real option" where
  "stopLossPrice rule side price =
     (case stopLossPercent rule of
        None \<Rightarrow> None
      | Some pct \<Rightarrow> if pct = 0 then None else Some (price * (1 - sign_of side * pct / 100)))"

definition takeProfitPrice :: "signal_rule \<Rightarrow> order_side \<Rightarrow> real \<Rightarrow> real option" where
  "takeProfitPrice rule side price =
     (case takeProfitPercent rule of
        None \<Rightarrow> None
      | Some pct \<Rightarrow> if pct = 0 then None else Some (price * (1 + sign_of side * pct / 100)))"

text \<open>\<open>settings.preferred_broker || 'ibkr'\<close>: the empty string is falsy too.\<close>

definition broker_of :: "trading_settings \<Rightarrow> string" where
  "broker_of settings =
     (case preferred_broker settings of
        None \<Rightarrow> ''ibkr''
      | Some b \<Rightarrow> if b = [] then ''ibkr'' else b)"

definition new_order ::
  "exec_env \<Rightarrow> trading_settings \<Rightarrow> signal \<Rightarrow> signal_rule \<Rightarrow> real \<Rightarrow> int \<Rightarrow> order_rec" where
  "new_order env settings signal rule price quantity =
     \<lparr>o_id = new_order_id env (sg_id signal),
      o_user_id = ts_user_id settings,
      o_signal_id = Some (sg_id signal),
      ibkr_order_id = order_tag env (sg_id signal),
      o_symbol = sg_symbol signal,
      o_side = side_of (sg_signal_type signal),
      o_quantity = quantity,
      limit_price = Some price,
      filled_price = None,
      o_status = submitted,
      o_strategy = option_strategy rule,
      o_trailing_stop_percent = trailing_stop_percent rule,
      o_stop_loss_price = stopLossPrice rule (side_of (sg_signal_type signal)) price,
      o_take_profit_price = takeProfitPrice rule (side_of (sg_signal_type signal)) price,
      o_broker = broker_of settings,
      created_at = now_ts env\<rparr>"

definition new_position ::
  "exec_env \<Rightarrow> trading_settings \<Rightarrow> signal \<Rightarrow> signal_rule \<Rightarrow> real \<Rightarrow> int \<Rightarrow> position" where
  "new_position env settings signal rule price quantity =
     \<lparr>p_id = new_position_id env (sg_id signal),
      p_user_id = ts_user_id settings,
      p_order_id = Some (new_order_id env (sg_id signal)),
      p_symbol = sg_symbol signal,
      p_quantity = (if side_of (sg_signal_type signal) = buy then quantity else - quantity),
      avg_cost = price,
      current_price = Some price,
      unrealized_pnl = None,
      trailing_stop_price =
        (case trailing_stop_percent rule of
           None \<Rightarrow> None
         | Some tsp \<Rightarrow> if tsp = 0 then None else Some (price * (1 - tsp / 100))),
      p_stop_loss_price = stopLossPrice rule (side_of (sg_signal_type signal)) price,
      p_take_profit_price = takeProfitPrice rule (side_of (sg_signal_type signal)) price,
      is_open = True,
      p_broker = broker_of settings\<rparr>"

text \<open>\<open>update signals set executed = true where id = ...\<close>\<close>

definition mark_executed :: "uuid \<Rightarrow> signal list \<Rightarrow> signal list" where
  "mark_executed sid tbl = map (\<lambda>x. if sg_id x = sid then x\<lparr>executed := True\<rparr> else x) tbl"

text \<open>
  What follows a successful order insert: the order row is in the table; the update that
  marks the signal and the insert of the position row are awaited without a look at
  their results, so each takes effect or fails without a trace; then the entry of the
  \<open>executed\<close> list is pushed in either case.
\<close>

definition record_execution ::
  "exec_env \<Rightarrow> trading_settings \<Rightarrow> signal \<Rightarrow> signal_rule \<Rightarrow> real \<Rightarrow> int \<Rightarrow> exec_state
     \<Rightarrow> exec_state" where
  "record_execution env settings signal rule price quantity s =
     s\<lparr>st := (st s)
            \<lparr>orders_tbl := orders_tbl (st s) @ [new_order env settings signal rule price quantity],
             signals_tbl :=
               (if signal_update_fails env (sg_id signal) then signals_tbl (st s)
                else mark_executed (sg_id signal) (signals_tbl (st s))),
             positions_tbl :=
               (if position_insert_fails env (sg_id signal) then positions_tbl (st s)
                else positions_tbl (st s) @ [new_position env settings signal rule price quantity])\<rparr>,
       executed_out := executed_out s @
         [\<lparr>ex_symbol = sg_symbol signal, ex_side = side_of (sg_signal_type signal),
           ex_quantity = quantity, ex_price = price,
           ex_orderId = new_order_id env (sg_id signal)\<rparr>]\<rparr>"

text \<open>
  The body of the loop over the signals of a user; every \<open>continue\<close> returns the state
  the next signal starts from. After the validation the price is finite, so the last case
  is never taken.
\<close>

definition execute_signal ::
  "exec_env \<Rightarrow> trading_settings \<Rightarrow> signal \<times> signal_rule \<Rightarrow> exec_state \<Rightarrow> exec_state" where
  "execute_signal env settings sr s =
     (case sr of (signal, rule) \<Rightarrow>
        if le_zero (price_at_signal signal) \<or> \<not> isFinite (price_at_signal signal)
        then skip (SkipSignal (sg_id signal) ''Invalid price'') s
        else
          let quantity =
                calculatePositionSize settings rule (price_at_signal signal) defaultAccountValue
          in if quantity \<le> 0
             then skip (SkipSignal (sg_id signal) ''Position size too small'') s
             else
               (case price_at_signal signal of
                  Finite price \<Rightarrow>
                    if order_insert_fails env (sg_id signal) then s
                    else record_execution env settings signal rule price quantity s
                | _ \<Rightarrow> s))"

text \<open>
  The body of the loop over the users with auto-trade enabled; every \<open>continue\<close>
  returns the state the next user starts from.
\<close>

definition process_user :: "exec_env \<Rightarrow> trading_settings \<Rightarrow> exec_state \<Rightarrow> exec_state" where
  "process_user env settings s =
     (if \<not> isWithinTradingHours (current_time env)
             (trading_hours_start settings) (trading_hours_end settings)
      then skip (SkipUser (ts_user_id settings) ''Outside trading hours'') s
      else if int (todaysTrades env (st s) (ts_user_id settings)) \<ge> maxDailyTrades settings
      then skip (SkipUser (ts_user_id settings) ''Max daily trades reached'') s
      else if dailyPnL_loop 0 (todaysOrders env (st s) (ts_user_id settings))
                \<le> - maxDailyLoss settings
      then skip (SkipUser (ts_user_id settings) ''Max daily loss reached'') s
      else fold (execute_signal env settings) (pending_signals (st s) (ts_user_id settings)) s)"

text \<open>
  The pass. With no user with auto-trade enabled the source answers with a message and
  writes nothing, as the fold over no user does.
\<close>

definition execute_pending_signals :: "exec_env \<Rightarrow> store \<Rightarrow> exec_state" where
  "execute_pending_signals env db =
     fold (process_user env) (filter auto_trade_enabled (trading_settings_tbl db))
       \<lparr>st = db, executed_out = [], skipped_out = []\<rparr>"

text \<open>The pass run once per clock reading of a list, each run on the store the last left.\<close>

definition run_passes :: "exec_env list \<Rightarrow> store \<Rightarrow> store" where
  "run_passes envs db = fold (\<lambda>env db'. st (execute_pending_signals env db')) envs db"

definition orders_for :: "store \<Rightarrow> uuid \<Rightarrow> nat" where
  "orders_for db sid = length (filter (\<lambda>r. o_signal_id r = Some sid) (orders_tbl db))"

section \<open>The update-trailing-stops pass (auto-invest)\<close>

text \<open>
  What the pass reads from outside the store: the draw of \<open>Math.random()\<close> for a
  position (the mock price) and whether the update of its row returns an error.
\<close>

record monitor_env =
  random :: "uuid \<Rightarrow> real"
  update_fails :: "uuid \<Rightarrow> bool"

text \<open>
  The selection: open positions joined with their order (\<open>orders!inner\<close>) whose
  \<open>trailing_stop_percent\<close> is not null. A selected row carries that percentage.
\<close>

definition order_trailing_percent :: "store \<Rightarrow> position \<Rightarrow> real option" where
  "order_trailing_percent db p =
     (if is_open p
      then (case p_order_id p of
              None \<Rightarrow> None
            | Some oid \<Rightarrow>
                (case find (\<lambda>r. o_id r = oid) (orders_tbl db) of
                   None \<Rightarrow> None
                 | Some r \<Rightarrow> o_trailing_stop_percent r))
      else None)"

definition trailing_positions :: "store \<Rightarrow> (position \<times> real) list" where
  "trailing_positions db =
     List.map_filter (\<lambda>p. map_option (Pair p) (order_trailing_percent db p)) (positions_tbl db)"

text \<open>\<open>position.avg_cost * (1 + (Math.random() - 0.5) * 0.1)\<close>\<close>

definition mockPrice :: "real \<Rightarrow> real \<Rightarrow> real" where
  "mockPrice avgCost r = avgCost * (1 + (r - 0.5) * 0.1)"

definition trailingPercent :: "real \<Rightarrow> real" where
  "trailingPercent orderPercent = max 0.1 (min 50 (or_default (Some orderPercent) 5))"

definition newTrailingStop :: "real \<Rightarrow> real \<Rightarrow> real" where
  "newTrailingStop currentPrice orderPercent =
     currentPrice * (1 - trailingPercent orderPercent / 100)"

text \<open>\<open>!position.trailing_stop_price || newTrailingStop > position.trailing_stop_price\<close>\<close>

definition stop_moves :: "position \<Rightarrow> real \<Rightarrow> bool" where
  "stop_moves p candidate =
     (case trailing_stop_price p of
        None \<Rightarrow> True
      | Some s \<Rightarrow> s = 0 \<or> candidate > s)"

text \<open>The row written by the update, from the selected row and the price.\<close>

definition refreshed :: "position \<Rightarrow> real \<Rightarrow> real \<Rightarrow> position \<Rightarrow> position" where
  "refreshed p currentPrice candidate row =
     row\<lparr>current_price := Some currentPrice,
         unrealized_pnl := Some ((currentPrice - avg_cost p) * real_of_int (p_quantity p)),
         trailing_stop_price := Some candidate\<rparr>"

record stop_update =
  su_symbol :: string
  oldStop :: "real option"
  newStop :: real
  su_currentPrice :: real

text \<open>
  The body of the loop over the selected positions, on a given current price; the state is
  the table and the \<open>updates\<close> list. The three checks after the update only write to the
  log.
\<close>

definition monitor_position ::
  "real \<Rightarrow> bool \<Rightarrow> position \<times> real \<Rightarrow> position list \<times> stop_update list
     \<Rightarrow> position list \<times> stop_update list" where
  "monitor_position currentPrice updateError sel acc =
     (case sel of (p, orderPercent) \<Rightarrow>
      case acc of (tbl, updates) \<Rightarrow>
        if stop_moves p (newTrailingStop currentPrice orderPercent)
        then
          if updateError then (tbl, updates)
          else
            (map (\<lambda>row. if p_id row = p_id p
                        then refreshed p currentPrice (newTrailingStop currentPrice orderPercent) row
                        else row) tbl,
             updates @
               [\<lparr>su_symbol = p_symbol p, oldStop = trailing_stop_price p,
                 newStop = newTrailingStop currentPrice orderPercent,
                 su_currentPrice = currentPrice\<rparr>])
        else (tbl, updates))"

text \<open>The body of the loop with the mock price of the position drawn.\<close>

definition monitor_step ::
  "monitor_env \<Rightarrow> position \<times> real \<Rightarrow> position list \<times> stop_update list
     \<Rightarrow> position list \<times> stop_update list" where
  "monitor_step env sel =
     monitor_position (mockPrice (avg_cost (fst sel)) (random env (p_id (fst sel))))
       (update_fails env (p_id (fst sel))) sel"

text \<open>
  The pass. With no selected position the source answers with a message and writes
  nothing, as the fold over no position does.
\<close>

definition update_trailing_stops :: "monitor_env \<Rightarrow> store \<Rightarrow> store \<times> stop_update list" where
  "update_trailing_stops env db =
     (case fold (monitor_step env) (trailing_positions db) (positions_tbl db, []) of
        (tbl, updates) \<Rightarrow> (db\<lparr>positions_tbl := tbl\<rparr>, updates))"

definition run_monitor :: "monitor_env list \<Rightarrow> store \<Rightarrow> store" where
  "run_monitor envs db = fold (\<lambda>env db'. fst (update_trailing_stops env db')) envs db"

section \<open>The indicator engine as the specification words it\<close>

text \<open>
  \<open>bollingerBands\<close> in the words of the specification: absent when the sequence is
  shorter than the period, otherwise the mean of the last \<open>period\<close> prices, the population
  variance of these prices, and the bands at the mean plus and minus the multiplier times
  the square root of the variance.
\<close>

definition last_prices :: "real list \<Rightarrow> nat \<Rightarrow> real list" where
  "last_prices prices period = map (\<lambda>i. prices ! (length prices - period + i)) [0..<period]"

definition spec_mean :: "real list \<Rightarrow> real" where
  "spec_mean xs = sum_list xs / real (length xs)"

definition spec_population_variance :: "real list \<Rightarrow> real" where
  "spec_population_variance xs = (\<Sum>x\<leftarrow>xs. (x - spec_mean xs) ^ 2) / real (length xs)"

definition spec_bollingerBands :: "real list \<Rightarrow> nat \<Rightarrow> real \<Rightarrow> bands option" where
  "spec_bollingerBands prices period stdDevMultiplier =
     (if length prices < period then None
      else
        let w = last_prices prices period
        in Some \<lparr>upper = spec_mean w + stdDevMultiplier * sqrt (spec_population_variance w),
                 middle = spec_mean w,
                 lower = spec_mean w - stdDevMultiplier * sqrt (spec_population_variance w)\<rparr>)"

text \<open>
  \<open>vwap\<close> in the words of the specification: the sum of typical price times volume over
  the sum of the volumes, and 0 when the cumulative volume is 0.
\<close>

definition spec_vwap :: "bar list \<Rightarrow> real" where
  "spec_vwap bars =
     (if (\<Sum>b\<leftarrow>bars. volume b) = 0 then 0
      else (\<Sum>b\<leftarrow>bars. typicalPrice b * volume b) / (\<Sum>b\<leftarrow>bars. volume b))"

section \<open>The position size as the specification words it\<close>


section \<open>Predicates of the proofs\<close>

text \<open>A signal id has a row that is not executed.\<close>

definition unexecuted_row :: "store \<Rightarrow> uuid \<Rightarrow> bool" where
  "unexecuted_row db sid = (\<exists>x\<in>set (signals_tbl db). sg_id x = sid \<and> \<not> executed x)"

text \<open>
  Against the number \<open>c\<close> of orders a signal id had in a starting store: the signal id
  has that number still, or one more and no unexecuted row.
\<close>

definition once_inv :: "nat \<Rightarrow> store \<Rightarrow> uuid \<Rightarrow> bool" where
  "once_inv c db sid =
     (orders_for db sid = c \<or> (orders_for db sid = c + 1 \<and> \<not> unexecuted_row db sid))"

text \<open>The condition of the selection of the signals of a user.\<close>

definition selectable :: "store \<Rightarrow> uuid \<Rightarrow> signal \<Rightarrow> bool" where
  "selectable db uid sg =
     (sg_user_id sg = uid \<and> \<not> executed sg
      \<and> (case signal_rule_id sg of None \<Rightarrow> False | Some rid \<Rightarrow> find_rule db rid \<noteq> None))"

text \<open>The orders of a user.\<close>

definition user_orders :: "store \<Rightarrow> uuid \<Rightarrow> order_rec list" where
  "user_orders db uid = filter (\<lambda>r. o_user_id r = uid) (orders_tbl db)"

text \<open>The first two checks of the risk gate stop the user.\<close>

definition gate_closed :: "exec_env \<Rightarrow> store \<Rightarrow> trading_settings \<Rightarrow> bool" where
  "gate_closed env db settings =
     (\<not> isWithinTradingHours (current_time env)
           (trading_hours_start settings) (trading_hours_end settings)
      \<or> int (todaysTrades env db (ts_user_id settings)) \<ge> maxDailyTrades settings)"

text \<open>Every position of a table has a positive average cost.\<close>

definition positive_costs :: "position list \<Rightarrow> bool" where
  "positive_costs tbl = list_all (\<lambda>p. 0 < avg_cost p) tbl"

text \<open>What one update-trailing-stops pass does to a row when the primary keys are distinct.\<close>

definition monitor_row :: "monitor_env \<Rightarrow> store \<Rightarrow> position \<Rightarrow> position" where
  "monitor_row env db p =
     (case order_trailing_percent db p of
        None \<Rightarrow> p
      | Some pct \<Rightarrow>
          let currentPrice = mockPrice (avg_cost p) (random env (p_id p));
              candidate = newTrailingStop currentPrice pct
          in if stop_moves p candidate \<and> \<not> update_fails env (p_id p)
             then refreshed p currentPrice candidate p
             else p)"

text \<open>
  The updates of a list of selected positions applied to one row of the table: the first
  selected position with the id of the row writes it.
\<close>

fun row_updates :: "monitor_env \<Rightarrow> (position \<times> real) list \<Rightarrow> position \<Rightarrow> position" where
  "row_updates env [] row = row"
| "row_updates env (sel # sels) row =
     (if p_id row = p_id (fst sel)
      then (if stop_moves (fst sel)
                 (newTrailingStop (mockPrice (avg_cost (fst sel)) (random env (p_id (fst sel)))) (snd sel))
               \<and> \<not> update_fails env (p_id (fst sel))
            then refreshed (fst sel) (mockPrice (avg_cost (fst sel)) (random env (p_id (fst sel))))
                   (newTrailingStop (mockPrice (avg_cost (fst sel)) (random env (p_id (fst sel)))) (snd sel))
                   row
            else row)
      else row_updates env sels row)"

section \<open>A worked store\<close>

text \<open>
  One user (trading hours 09:30:00 to 16:00:00), one rule (5 percent of the account, at
  most 10000, stop loss 20 percent, take profit 40 percent, trailing stop 5 percent) and
  signals at a given price; today starts at instant 1000 and the clock reads 1500. In
  the worked environment only the insert of an order can fail.
\<close>

definition example_settings :: "int option \<Rightarrow> trading_settings" where
  "example_settings maxTrades =
     \<lparr>ts_user_id = 1, auto_trade_enabled = True, max_daily_trades = maxTrades,
      max_daily_loss = Some 1000, max_position_size = Some 10000,
      trading_hours_start = ''09:30:00'', trading_hours_end = ''16:00:00'',
      preferred_broker = None\<rparr>"

definition example_rule :: signal_rule where
  "example_rule =
     \<lparr>sr_id = 7, sr_user_id = 1, option_strategy = ''buy_call'',
      trailing_stop_percent = Some 5, stop_loss_percent = Some 20,
      take_profit_percent = Some 40, position_size_percent = Some 5,
      max_position_value = Some 10000\<rparr>"

definition example_signal :: "uuid \<Rightarrow> signal_type \<Rightarrow> jsnum \<Rightarrow> signal" where
  "example_signal sid t price =
     \<lparr>sg_id = sid, sg_user_id = 1, sg_symbol = ''AAPL'', sg_signal_type = t,
      price_at_signal = price, executed = False, signal_rule_id = Some 7\<rparr>"

definition example_env :: "string \<Rightarrow> (uuid \<Rightarrow> bool) \<Rightarrow> exec_env" where
  "example_env t fails =
     \<lparr>current_time = t, today_start = 1000, now_ts = 1500,
      order_insert_fails = fails, signal_update_fails = (\<lambda>_. False),
      position_insert_fails = (\<lambda>_. False), new_order_id = (\<lambda>sid. 100 + sid),
      new_position_id = (\<lambda>sid. 200 + sid), order_tag = (\<lambda>_. ''AUTO'')\<rparr>"

definition example_store :: "trading_settings \<Rightarrow> signal list \<Rightarrow> order_rec list \<Rightarrow> store" where
  "example_store settings sigs ords =
     \<lparr>trading_settings_tbl = [settings], signal_rules_tbl = [example_rule],
      signals_tbl = sigs, orders_tbl = ords, positions_tbl = []\<rparr>"

definition example_state :: "trading_settings \<Rightarrow> signal list \<Rightarrow> order_rec list \<Rightarrow> exec_state" where
  "example_state settings sigs ords =
     \<lparr>st = example_store settings sigs ords, executed_out = [], skipped_out = []\<rparr>"

definition example_today_order :: order_rec where
  "example_today_order =
     new_order (example_env ''09:45:00'' (\<lambda>_. False)) (example_settings (Some 1))
       (example_signal 9 bb_breakout_up (Finite 100)) example_rule 100 50"

text \<open>
  An open position bought at 110 with a trailing stop of 5 percent on its order and a stop
  stored at 100.
\<close>

definition example_order :: order_rec where
  "example_order =
     \<lparr>o_id = 50, o_user_id = 1, o_signal_id = Some 3, ibkr_order_id = ''AUTO'',
      o_symbol = ''AAPL'', o_side = buy, o_quantity = 10, limit_price = Some 110,
      filled_price = None, o_status = submitted, o_strategy = ''buy_call'',
      o_trailing_stop_percent = Some 5, o_stop_loss_price = None,
      o_take_profit_price = None, o_broker = ''ibkr'', created_at = 1500\<rparr>"

definition example_position :: position where
  "example_position =
     \<lparr>p_id = 60, p_user_id = 1, p_order_id = Some 50, p_symbol = ''AAPL'', p_quantity = 10,
      avg_cost = 110, current_price = Some 110, unrealized_pnl = None,
      trailing_stop_price = Some 100, p_stop_loss_price = None,
      p_take_profit_price = None, is_open = True, p_broker = ''ibkr''\<rparr>"

definition example_portfolio :: store where
  "example_portfolio =
     \<lparr>trading_settings_tbl = [], signal_rules_tbl = [], signals_tbl = [],
      orders_tbl = [example_order], positions_tbl = [example_position]\<rparr>"

text \<open>The worked position with another percentage on its order and another stored stop.\<close>

definition example_portfolio_at :: "real \<Rightarrow> real option \<Rightarrow> store" where
  "example_portfolio_at pct stop =
     \<lparr>trading_settings_tbl = [], signal_rules_tbl = [], signals_tbl = [],
      orders_tbl = [example_order\<lparr>o_trailing_stop_percent := Some pct\<rparr>],
      positions_tbl = [example_position\<lparr>trailing_stop_price := stop\<rparr>]\<rparr>"

definition example_draw :: "real \<Rightarrow> monitor_env" where
  "example_draw r = \<lparr>random = (\<lambda>_. r), update_fails = (\<lambda>_. False)\<rparr>"

definition example_position_1 :: position where
  "example_position_1 = refreshed example_position 110 (209 / 2) example_position"

section \<open>Indicator engine: the code computes what the specification words\<close>

lemma foldl_add_sum_list: "foldl (\<lambda>a b. a + b) (s::real) xs = s + sum_list xs"
  by (induction xs arbitrary: s) simp_all

lemma foldl_sq_sum_list:
  "foldl (\<lambda>sum p. sum + (p - m) ^ 2) (s::real) xs = s + (\<Sum>p\<leftarrow>xs. (p - m) ^ 2)"
  by (induction xs arbitrary: s) simp_all

lemma last_prices_drop:
  "period \<le> length prices \<Longrightarrow> last_prices prices period = drop (length prices - period) prices"
  unfolding last_prices_def
  by (rule nth_equalityI) (simp_all add: add.commute)

lemma slice_last_eq:
  "0 < period \<Longrightarrow> period \<le> length prices \<Longrightarrow> slice_last period prices = last_prices prices period"
  by (simp add: slice_last_def last_prices_drop)

lemma length_last_prices: "length (last_prices prices period) = period"
  by (simp add: last_prices_def)

lemma calculateBB_absent:
  "calculateBB prices period k = Absent \<longleftrightarrow> length prices < period"
  by (simp add: calculateBB_def Let_def)

lemma calculateBB_window:
  assumes "0 < period" and "period \<le> length prices"
  shows "calculateBB prices period k =
           Bands \<lparr>upper = spec_mean (last_prices prices period)
                      + k * sqrt (spec_population_variance (last_prices prices period)),
                   middle = spec_mean (last_prices prices period),
                   lower = spec_mean (last_prices prices period)
                      - k * sqrt (spec_population_variance (last_prices prices period))\<rparr>"
  using assms
  by (simp add: calculateBB_def Let_def slice_last_eq foldl_add_sum_list foldl_sq_sum_list
      spec_mean_def spec_population_variance_def length_last_prices mult.commute)

lemma calculateBB_constant:
  assumes "0 < period"
  shows "calculateBB (replicate period c) period k = Bands \<lparr>upper = c, middle = c, lower = c\<rparr>"
proof -
  have m: "sum_list (replicate period c) / real period = c"
    using assms by (simp add: sum_list_replicate)
  show ?thesis
    using assms
    by (simp add: calculateBB_def Let_def slice_last_def foldl_add_sum_list foldl_sq_sum_list m
        sum_list_replicate)
qed

text \<open>
  Claim C6. For every price sequence \<open>calculateBB\<close> returns absent exactly when the
  sequence is shorter than the period. For a period of at least one it returns what the
  specification words: the middle band is the mean of the last \<open>period\<close> prices, the
  variance is the population variance of these prices (the sum of squared deviations
  divided by \<open>period\<close>), and the upper and lower bands are the middle plus and minus the
  multiplier times the square root of the variance. On a constant sequence of \<open>period\<close>
  prices the three bands are that constant.
\<close>

theorem calculateBB_spec:
  "(calculateBB prices period stdDevMultiplier = Absent \<longleftrightarrow> length prices < period)
   \<and> (0 < period \<longrightarrow>
        calculateBB prices period stdDevMultiplier =
          (case spec_bollingerBands prices period stdDevMultiplier of
             None \<Rightarrow> Absent | Some b \<Rightarrow> Bands b))
   \<and> (0 < period \<longrightarrow> calculateBB (replicate period c) period stdDevMultiplier
         = Bands \<lparr>upper = c, middle = c, lower = c\<rparr>)"
proof (intro conjI impI)
  show "calculateBB prices period stdDevMultiplier = Absent \<longleftrightarrow> length prices < period"
    by (rule calculateBB_absent)
next
  assume pos: "0 < period"
  show "calculateBB prices period stdDevMultiplier =
          (case spec_bollingerBands prices period stdDevMultiplier of
             None \<Rightarrow> Absent | Some b \<Rightarrow> Bands b)"
  proof (cases "length prices < period")
    case True
    then show ?thesis by (simp add: calculateBB_def spec_bollingerBands_def)
  next
    case False
    then have "period \<le> length prices" by simp
    from calculateBB_window [OF pos this] False show ?thesis
      by (simp add: spec_bollingerBands_def Let_def)
  qed
next
  assume "0 < period"
  then show "calculateBB (replicate period c) period stdDevMultiplier
         = Bands \<lparr>upper = c, middle = c, lower = c\<rparr>"
    by (rule calculateBB_constant)
qed

text \<open>
  The theorem at three inputs: nine prices with period 8 (the last eight have mean 5 and
  population variance 4), two prices with period 3, and twenty prices of 100 with period
  20 and multiplier 2.
\<close>

theorem calculateBB_spec_witness:
  "calculateBB [1, 2, 4, 4, 4, 5, 5, 7, 9] 8 2 = Bands \<lparr>upper = 9, middle = 5, lower = 1\<rparr>
   \<and> calculateBB [1, 2] 3 2 = Absent
   \<and> calculateBB (replicate 20 100) 20 2 = Bands \<lparr>upper = 100, middle = 100, lower = 100\<rparr>"
  using calculateBB_spec [of "[1, 2, 4, 4, 4, 5, 5, 7, 9]" 8 2 100]
    calculateBB_spec [of "[1, 2]" 3 2 100]
    calculateBB_spec [of "replicate 20 100" 20 2 100]
  by (simp add: spec_bollingerBands_def last_prices_def spec_mean_def
      spec_population_variance_def Let_def upt_rec numeral_nat)

lemma vwap_loop_sums:
  "vwap_loop (t, v) bars =
     (t + (\<Sum>b\<leftarrow>bars. typicalPrice b * volume b), v + (\<Sum>b\<leftarrow>bars. volume b))"
  by (induction bars arbitrary: t v) simp_all

lemma sum_list_volume_nonneg:
  "\<forall>b\<in>set bars. 0 \<le> volume b \<Longrightarrow> 0 \<le> (\<Sum>b\<leftarrow>bars. volume b)"
  by (induction bars) simp_all

text \<open>
  Claim C8. For every finite sequence of bars (with volumes that are not negative)
  \<open>calculateVWAP\<close>, which accumulates in bar order, returns the sum of typical price
  times volume divided by the sum of the volumes, with typical price (high + low +
  close) / 3, and returns 0 when the cumulative volume is 0. For a single bar with a
  positive volume the result is the typical price of the bar, whatever the volume.
\<close>

theorem calculateVWAP_spec:
  "((\<forall>b\<in>set bars. 0 \<le> volume b) \<longrightarrow> calculateVWAP bars = spec_vwap bars)
   \<and> (0 < volume b \<longrightarrow> calculateVWAP [b] = typicalPrice b)"
proof (intro conjI impI)
  assume nonneg: "\<forall>b\<in>set bars. 0 \<le> volume b"
  then have "0 \<le> (\<Sum>b\<leftarrow>bars. volume b)" by (rule sum_list_volume_nonneg)
  then show "calculateVWAP bars = spec_vwap bars"
    by (auto simp: calculateVWAP_def spec_vwap_def vwap_loop_sums)
next
  assume "0 < volume b"
  then show "calculateVWAP [b] = typicalPrice b"
    by (simp add: calculateVWAP_def)
qed

text \<open>
  The theorem at two bars with typical prices 10 and 20 and volumes 100 and 300, at two
  bars of volume 0, and at the first bar alone.
\<close>

theorem calculateVWAP_spec_witness:
  "calculateVWAP [\<lparr>high = 12, low = 9, close = 9, volume = 100\<rparr>,
                  \<lparr>high = 22, low = 18, close = 20, volume = 300\<rparr>] = 35 / 2
   \<and> calculateVWAP [\<lparr>high = 12, low = 9, close = 9, volume = 0\<rparr>,
                    \<lparr>high = 22, low = 18, close = 20, volume = 0\<rparr>] = 0
   \<and> calculateVWAP [\<lparr>high = 12, low = 9, close = 9, volume = 100\<rparr>] = 10"
  using calculateVWAP_spec [of "[\<lparr>high = 12, low = 9, close = 9, volume = 100\<rparr>,
                  \<lparr>high = 22, low = 18, close = 20, volume = 300\<rparr>]"
            "\<lparr>high = 12, low = 9, close = 9, volume = 100\<rparr>"]
    calculateVWAP_spec [of "[\<lparr>high = 12, low = 9, close = 9, volume = 0\<rparr>,
                    \<lparr>high = 22, low = 18, close = 20, volume = 0\<rparr>]"
            "\<lparr>high = 12, low = 9, close = 9, volume = 100\<rparr>"]
  by (simp add: spec_vwap_def typicalPrice_def)

section \<open>Signal detector: boundary semantics\<close>

text \<open>
  Claim C7. \<open>bb_breakout_up\<close> is emitted exactly when the previous price is at most the
  upper band and the current price is above it; \<open>bb_breakout_down\<close> exactly when the
  previous price is at least the lower band and the current price is below it;
  \<open>bb_mean_reversion_up\<close> exactly when the previous price is below and the current price
  above the lower band; \<open>bb_mean_reversion_down\<close> exactly when the previous price is
  above and the current price below the upper band. So for every positive \<open>eps\<close>, with
  the previous price on the upper band and the current price \<open>eps\<close> above it exactly one
  \<open>bb_breakout_up\<close> is emitted, and with the previous price \<open>eps\<close> above the band and the
  current price on it none is.
\<close>

theorem detectedSignals_boundary:
  "(bb_breakout_up \<in> set (detectedSignals previousPrice currentPrice bb vwap)
      \<longleftrightarrow> previousPrice \<le> upper bb \<and> currentPrice > upper bb)
   \<and> (bb_breakout_down \<in> set (detectedSignals previousPrice currentPrice bb vwap)
      \<longleftrightarrow> previousPrice \<ge> lower bb \<and> currentPrice < lower bb)
   \<and> (bb_mean_reversion_up \<in> set (detectedSignals previousPrice currentPrice bb vwap)
      \<longleftrightarrow> previousPrice < lower bb \<and> currentPrice > lower bb)
   \<and> (bb_mean_reversion_down \<in> set (detectedSignals previousPrice currentPrice bb vwap)
      \<longleftrightarrow> previousPrice > upper bb \<and> currentPrice < upper bb)
   \<and> (0 < eps \<longrightarrow>
        count_list (detectedSignals (upper bb) (upper bb + eps) bb vwap) bb_breakout_up = 1
        \<and> bb_breakout_up \<notin> set (detectedSignals (upper bb + eps) (upper bb) bb vwap))"
  by (auto simp: detectedSignals_def split: option.splits)

text \<open>The theorem at the bands 110, 100, 90, a VWAP of 105 and \<open>eps\<close> = 1/2.\<close>

theorem detectedSignals_boundary_witness:
  "detectedSignals 110 (110 + 1 / 2) \<lparr>upper = 110, middle = 100, lower = 90\<rparr> (Some 105)
     = [bb_breakout_up]
   \<and> count_list
       (detectedSignals 110 (110 + 1 / 2) \<lparr>upper = 110, middle = 100, lower = 90\<rparr> (Some 105))
       bb_breakout_up = 1
   \<and> detectedSignals (110 + 1 / 2) 110 \<lparr>upper = 110, middle = 100, lower = 90\<rparr> (Some 105)
     = []"
  using detectedSignals_boundary
    [of "110" "110 + 1 / 2" "\<lparr>upper = 110, middle = 100, lower = 90\<rparr>" "Some 105" "1 / 2"]
  by (simp add: detectedSignals_def)

section \<open>Execution of one signal\<close>

lemma st_skip [simp]: "st (skip e s) = st s"
  by (simp add: skip_def)

lemma executed_out_skip [simp]: "executed_out (skip e s) = executed_out s"
  by (simp add: skip_def)

lemma skipped_out_skip [simp]: "skipped_out (skip e s) = skipped_out s @ [e]"
  by (simp add: skip_def)

lemma execute_signal_cases:
  "execute_signal env settings (sg, r) s = s
   \<or> (\<exists>e. execute_signal env settings (sg, r) s = skip e s)
   \<or> (\<exists>price q. execute_signal env settings (sg, r) s
                    = record_execution env settings sg r price q s)"
  by (cases "price_at_signal sg") (auto simp: execute_signal_def Let_def)



lemma execute_signal_insert_fails:
  "price_at_signal sg = Finite price \<Longrightarrow> 0 < price \<Longrightarrow>
   0 < calculatePositionSize settings r (Finite price) defaultAccountValue \<Longrightarrow>
   order_insert_fails env (sg_id sg) \<Longrightarrow>
     execute_signal env settings (sg, r) s = s"
  by (simp add: execute_signal_def)

lemma execute_signal_ok:
  "price_at_signal sg = Finite price \<Longrightarrow> 0 < price \<Longrightarrow>
   0 < calculatePositionSize settings r (Finite price) defaultAccountValue \<Longrightarrow>
   \<not> order_insert_fails env (sg_id sg) \<Longrightarrow>
     execute_signal env settings (sg, r) s
       = record_execution env settings sg r price
           (calculatePositionSize settings r (Finite price) defaultAccountValue) s"
  by (simp add: execute_signal_def Let_def)

section \<open>Position sizing\<close>







section \<open>The worked store, evaluated\<close>

lemma example_quantities:
  "calculatePositionSize (example_settings m) example_rule (Finite 100) defaultAccountValue = 50"
  "calculatePositionSize (example_settings m) example_rule (Finite (1 / 1000)) defaultAccountValue
     = 1000000"
  "calculatePositionSize ((example_settings m)\<lparr>max_position_size := Some 0\<rparr>) example_rule
     (Finite 100) defaultAccountValue = 50"
  "calculatePositionSize (example_settings m) (example_rule\<lparr>position_size_percent := Some 0\<rparr>)
     (Finite 100) defaultAccountValue = 50"
  "calculatePositionSize (example_settings m) example_rule (Finite 20000) defaultAccountValue = 0"
  "calculatePositionSize (example_settings m) (example_rule\<lparr>max_position_value := Some 50\<rparr>)
     (Finite 10) defaultAccountValue = 5"
  by (simp_all add: calculatePositionSize_def example_settings_def example_rule_def
      defaultAccountValue_def or_default_def)


lemma example_signal_fields:
  "sg_id (example_signal sid t price) = sid" "sg_user_id (example_signal sid t price) = 1"
  "sg_signal_type (example_signal sid t price) = t"
  "price_at_signal (example_signal sid t price) = price"
  "executed (example_signal sid t price) = False"
  "signal_rule_id (example_signal sid t price) = Some 7"
  by (simp_all add: example_signal_def)

lemma example_env_fields:
  "current_time (example_env t fails) = t" "today_start (example_env t fails) = 1000"
  "now_ts (example_env t fails) = 1500" "order_insert_fails (example_env t fails) = fails"
  "signal_update_fails (example_env t fails) = (\<lambda>_. False)"
  "position_insert_fails (example_env t fails) = (\<lambda>_. False)"
  by (simp_all add: example_env_def)

lemma example_settings_fields:
  "ts_user_id (example_settings m) = 1" "auto_trade_enabled (example_settings m)"
  "max_daily_trades (example_settings m) = m" "max_daily_loss (example_settings m) = Some 1000"
  "trading_hours_start (example_settings m) = ''09:30:00''"
  "trading_hours_end (example_settings m) = ''16:00:00''"
  by (simp_all add: example_settings_def)

lemma example_store_fields:
  "trading_settings_tbl (example_store settings sigs ords) = [settings]"
  "signal_rules_tbl (example_store settings sigs ords) = [example_rule]"
  "signals_tbl (example_store settings sigs ords) = sigs"
  "orders_tbl (example_store settings sigs ords) = ords"
  "positions_tbl (example_store settings sigs ords) = []"
  by (simp_all add: example_store_def)

lemma example_today_order_fields:
  "o_user_id example_today_order = 1" "created_at example_today_order = 1500"
  "o_status example_today_order = submitted" "o_signal_id example_today_order = Some 9"
  by (simp_all add: example_today_order_def new_order_def example_env_def example_settings_def
      example_signal_def)

lemma example_hours:
  "isWithinTradingHours ''10:00:00'' ''09:30:00'' ''16:00:00''"
  "isWithinTradingHours ''10:05:00'' ''09:30:00'' ''16:00:00''"
  "isWithinTradingHours ''16:00:00'' ''09:30:00'' ''16:00:00''"
  "\<not> isWithinTradingHours ''16:00:01'' ''09:30:00'' ''16:00:00''"
  "\<not> isWithinTradingHours ''08:00:00'' ''09:30:00'' ''16:00:00''"
  by (simp_all add: isWithinTradingHours_def less_char_def less_eq_char_def)

lemma example_rule_id: "sr_id example_rule = 7"
  by (simp add: example_rule_def)

lemmas example_pass_simps =
  execute_pending_signals_def process_user_def example_state_def example_store_fields
  example_settings_fields example_hours todaysTrades_def maxDailyTrades_def or_default_def
  todaysOrders_def maxDailyLoss_def pending_signals_def List.map_filter_simps
  example_signal_fields find_rule_def example_rule_id execute_signal_def example_quantities Let_def
  record_execution_def example_env_fields example_today_order_fields skip_def



section \<open>Order side and protective prices\<close>

lemma stopLossPrice_eq:
  "stopLossPrice rule side price =
     map_option (\<lambda>pct. price * (1 - sign_of side * pct / 100)) (stopLossPercent rule)"
  by (auto simp: stopLossPrice_def stopLossPercent_def split: option.splits)

lemma takeProfitPrice_eq:
  "takeProfitPrice rule side price =
     map_option (\<lambda>pct. price * (1 + sign_of side * pct / 100)) (takeProfitPercent rule)"
  by (auto simp: takeProfitPrice_def takeProfitPercent_def split: option.splits)

text \<open>
  Claim C5, amended. For every signal that is executed (a finite positive price, a
  positive quantity, the order insert succeeds) the order appended by the pass has side
  buy exactly when the signal type is one of bb_breakout_up, bb_mean_reversion_up and
  vwap_cross_up, and sell otherwise. Its stop-loss price is the price times
  (1 - sign * p / 100) and its take-profit price is the price times (1 + sign * q / 100),
  with sign +1 for buy and -1 for sell, \<open>p\<close> the stop-loss percentage of the rule clamped
  to [0.1, 50] and \<open>q\<close> its take-profit percentage clamped to [0.1, 100]; each price is
  absent, independently of the other, when its percentage is absent or 0. A percentage
  within its interval is used as it is.
\<close>

theorem order_side_and_protective_prices:
  assumes "price_at_signal sg = Finite price" and "0 < price"
    and "quantity = calculatePositionSize settings rule (Finite price) defaultAccountValue"
    and "0 < quantity"
    and "\<not> order_insert_fails env (sg_id sg)"
    and "s' = execute_signal env settings (sg, rule) s"
    and "ord = last (orders_tbl (st s'))"
  shows "orders_tbl (st s') = orders_tbl (st s) @ [ord]
    \<and> o_signal_id ord = Some (sg_id sg) \<and> o_quantity ord = quantity
    \<and> (o_side ord = buy \<longleftrightarrow>
          sg_signal_type sg \<in> {bb_breakout_up, bb_mean_reversion_up, vwap_cross_up})
    \<and> (o_side ord = sell \<longleftrightarrow>
          sg_signal_type sg \<notin> {bb_breakout_up, bb_mean_reversion_up, vwap_cross_up})
    \<and> sign_of buy = 1 \<and> sign_of sell = - 1
    \<and> (\<forall>pct. stop_loss_percent rule = Some pct \<and> pct \<noteq> 0 \<longrightarrow>
          o_stop_loss_price ord
            = Some (price * (1 - sign_of (o_side ord) * max 0.1 (min 50 pct) / 100)))
    \<and> (\<forall>pct. take_profit_percent rule = Some pct \<and> pct \<noteq> 0 \<longrightarrow>
          o_take_profit_price ord
            = Some (price * (1 + sign_of (o_side ord) * max 0.1 (min 100 pct) / 100)))
    \<and> (stop_loss_percent rule = None \<or> stop_loss_percent rule = Some 0 \<longrightarrow>
          o_stop_loss_price ord = None)
    \<and> (take_profit_percent rule = None \<or> take_profit_percent rule = Some 0 \<longrightarrow>
          o_take_profit_price ord = None)
    \<and> (\<forall>pct. stop_loss_percent rule = Some pct \<and> 0.1 \<le> pct \<and> pct \<le> 50 \<longrightarrow>
          o_stop_loss_price ord = Some (price * (1 - sign_of (o_side ord) * pct / 100)))
    \<and> (\<forall>pct. take_profit_percent rule = Some pct \<and> 0.1 \<le> pct \<and> pct \<le> 100 \<longrightarrow>
          o_take_profit_price ord = Some (price * (1 + sign_of (o_side ord) * pct / 100)))"
proof -
  have s': "s' = record_execution env settings sg rule price quantity s"
    using assms by (simp add: execute_signal_ok)
  have ord: "ord = new_order env settings sg rule price quantity"
    using assms(7) by (simp add: s' record_execution_def)
  have side: "o_side ord = side_of (sg_signal_type sg)"
    by (simp add: ord new_order_def)
  have sl: "o_stop_loss_price ord = stopLossPrice rule (o_side ord) price"
    by (simp add: ord new_order_def)
  have tp: "o_take_profit_price ord = takeProfitPrice rule (o_side ord) price"
    by (simp add: ord new_order_def)
  have b: "o_side ord = buy \<longleftrightarrow>
          sg_signal_type sg \<in> {bb_breakout_up, bb_mean_reversion_up, vwap_cross_up}"
    by (simp add: side side_of_def)
  show ?thesis
  proof (intro conjI)
    show "orders_tbl (st s') = orders_tbl (st s) @ [ord]"
      by (simp add: s' ord record_execution_def)
    show "o_signal_id ord = Some (sg_id sg)" and "o_quantity ord = quantity"
      by (simp_all add: ord new_order_def)
    show "o_side ord = buy \<longleftrightarrow>
          sg_signal_type sg \<in> {bb_breakout_up, bb_mean_reversion_up, vwap_cross_up}"
      by (rule b)
    show "o_side ord = sell \<longleftrightarrow>
          sg_signal_type sg \<notin> {bb_breakout_up, bb_mean_reversion_up, vwap_cross_up}"
      using b by (cases "o_side ord") auto
    show "sign_of buy = 1" and "sign_of sell = - 1"
      by (simp_all add: sign_of_def)
    show "\<forall>pct. stop_loss_percent rule = Some pct \<and> pct \<noteq> 0 \<longrightarrow>
          o_stop_loss_price ord
            = Some (price * (1 - sign_of (o_side ord) * max 0.1 (min 50 pct) / 100))"
      by (simp add: sl stopLossPrice_eq stopLossPercent_def)
    show "\<forall>pct. take_profit_percent rule = Some pct \<and> pct \<noteq> 0 \<longrightarrow>
          o_take_profit_price ord
            = Some (price * (1 + sign_of (o_side ord) * max 0.1 (min 100 pct) / 100))"
      by (simp add: tp takeProfitPrice_eq takeProfitPercent_def)
    show "stop_loss_percent rule = None \<or> stop_loss_percent rule = Some 0 \<longrightarrow>
          o_stop_loss_price ord = None"
      by (auto simp: sl stopLossPrice_eq stopLossPercent_def)
    show "take_profit_percent rule = None \<or> take_profit_percent rule = Some 0 \<longrightarrow>
          o_take_profit_price ord = None"
      by (auto simp: tp takeProfitPrice_eq takeProfitPercent_def)
    show "\<forall>pct. stop_loss_percent rule = Some pct \<and> 0.1 \<le> pct \<and> pct \<le> 50 \<longrightarrow>
          o_stop_loss_price ord = Some (price * (1 - sign_of (o_side ord) * pct / 100))"
      by (auto simp: sl stopLossPrice_eq stopLossPercent_def)
    show "\<forall>pct. take_profit_percent rule = Some pct \<and> 0.1 \<le> pct \<and> pct \<le> 100 \<longrightarrow>
          o_take_profit_price ord = Some (price * (1 + sign_of (o_side ord) * pct / 100))"
      by (auto simp: tp takeProfitPrice_eq takeProfitPercent_def)
  qed
qed

text \<open>
  The theorem on the worked store, at the price 100 with a stop loss of 20 percent and a
  take profit of 40 percent: a buy has the stop-loss price 80 and the take-profit price
  140, a sell 120 and 60.
\<close>

theorem order_side_and_protective_prices_witness:
  "o_side (last (orders_tbl (st (execute_signal (example_env ''10:00:00'' (\<lambda>_. False))
       (example_settings (Some 1)) (example_signal 3 bb_breakout_up (Finite 100), example_rule)
       (example_state (example_settings (Some 1)) [] [])))))
     = buy
   \<and> o_stop_loss_price (last (orders_tbl (st (execute_signal (example_env ''10:00:00'' (\<lambda>_. False))
       (example_settings (Some 1)) (example_signal 3 bb_breakout_up (Finite 100), example_rule)
       (example_state (example_settings (Some 1)) [] [])))))
     = Some 80
   \<and> o_take_profit_price (last (orders_tbl (st (execute_signal (example_env ''10:00:00'' (\<lambda>_. False))
       (example_settings (Some 1)) (example_signal 3 bb_breakout_up (Finite 100), example_rule)
       (example_state (example_settings (Some 1)) [] [])))))
     = Some 140
   \<and> o_side (last (orders_tbl (st (execute_signal (example_env ''10:00:00'' (\<lambda>_. False))
       (example_settings (Some 1)) (example_signal 3 bb_breakout_down (Finite 100), example_rule)
       (example_state (example_settings (Some 1)) [] [])))))
     = sell
   \<and> o_stop_loss_price (last (orders_tbl (st (execute_signal (example_env ''10:00:00'' (\<lambda>_. False))
       (example_settings (Some 1)) (example_signal 3 bb_breakout_down (Finite 100), example_rule)
       (example_state (example_settings (Some 1)) [] [])))))
     = Some 120
   \<and> o_take_profit_price (last (orders_tbl (st (execute_signal (example_env ''10:00:00'' (\<lambda>_. False))
       (example_settings (Some 1)) (example_signal 3 bb_breakout_down (Finite 100), example_rule)
       (example_state (example_settings (Some 1)) [] [])))))
     = Some 60"
proof -
  let ?env = "example_env ''10:00:00'' (\<lambda>_. False)"
  let ?set = "example_settings (Some 1)"
  let ?s = "example_state (example_settings (Some 1)) [] []"
  have q: "50 = calculatePositionSize ?set example_rule (Finite 100) defaultAccountValue"
    by (simp add: example_quantities)
  have ok: "\<not> order_insert_fails ?env (sg_id (example_signal 3 t (Finite 100)))" for t
    by (simp add: example_env_fields)
  have p: "price_at_signal (example_signal 3 t (Finite 100)) = Finite 100" for t
    by (simp add: example_signal_fields)
  have pos: "(0::real) < 100" "(0::int) < 50" by simp_all
  note b = order_side_and_protective_prices
    [where sg = "example_signal 3 bb_breakout_up (Finite 100)" and price = 100
       and quantity = 50 and settings = ?set and rule = example_rule and env = ?env and s = ?s,
     OF p pos(1) q pos(2) ok refl refl]
  note s = order_side_and_protective_prices
    [where sg = "example_signal 3 bb_breakout_down (Finite 100)" and price = 100
       and quantity = 50 and settings = ?set and rule = example_rule and env = ?env and s = ?s,
     OF p pos(1) q pos(2) ok refl refl]
  from b s show ?thesis
    by (simp add: example_signal_fields example_rule_def sign_of_def)
qed

text \<open>
  The claim as stated fails: with a stop-loss percentage of 60 the buy order at the price
  100 has the stop-loss price 50 where the formula gives 40, and with a take-profit
  percentage of 0 it has no take-profit price where the formula gives 100.
\<close>

theorem protective_prices_counterexample:
  "o_stop_loss_price (last (orders_tbl (st (execute_signal (example_env ''10:00:00'' (\<lambda>_. False))
       (example_settings (Some 1))
       (example_signal 3 bb_breakout_up (Finite 100),
        example_rule\<lparr>stop_loss_percent := Some 60, take_profit_percent := Some 0\<rparr>)
       (example_state (example_settings (Some 1)) [] [])))))
     = Some 50
   \<and> (100::real) * (1 - 1 * 60 / 100) = 40
   \<and> o_take_profit_price (last (orders_tbl (st (execute_signal (example_env ''10:00:00'' (\<lambda>_. False))
       (example_settings (Some 1))
       (example_signal 3 bb_breakout_up (Finite 100),
        example_rule\<lparr>stop_loss_percent := Some 60, take_profit_percent := Some 0\<rparr>)
       (example_state (example_settings (Some 1)) [] [])))))
     = None
   \<and> (100::real) * (1 + 1 * 0 / 100) = 100"
proof -
  have "calculatePositionSize (example_settings (Some 1))
          (example_rule\<lparr>stop_loss_percent := Some 60, take_profit_percent := Some 0\<rparr>)
          (Finite 100) defaultAccountValue = 50"
    by (simp add: calculatePositionSize_def example_settings_def example_rule_def
        defaultAccountValue_def or_default_def)
  then show ?thesis
    by (simp add: execute_signal_def example_signal_fields example_env_fields
        record_execution_def new_order_def stopLossPrice_def stopLossPercent_def
        takeProfitPrice_def takeProfitPercent_def side_of_def sign_of_def example_rule_def)
qed

section \<open>At most one order for a signal\<close>

lemma orders_for_record_execution:
  "orders_for (st (record_execution env settings sg r price q s)) sid
     = orders_for (st s) sid + (if sid = sg_id sg then 1 else 0)"
  by (simp add: orders_for_def record_execution_def new_order_def)

lemma signals_record_execution:
  "signals_tbl (st (record_execution env settings sg r price q s))
     = (if signal_update_fails env (sg_id sg) then signals_tbl (st s)
        else mark_executed (sg_id sg) (signals_tbl (st s)))"
  by (simp add: record_execution_def)

lemma positions_record_execution:
  "length (positions_tbl (st (record_execution env settings sg r price q s)))
     = length (positions_tbl (st s)) + (if position_insert_fails env (sg_id sg) then 0 else 1)"
  by (simp add: record_execution_def)

lemma unexecuted_row_record_execution:
  "unexecuted_row (st (record_execution env settings sg r price q s)) sid
     \<longleftrightarrow> (if signal_update_fails env (sg_id sg) then unexecuted_row (st s) sid
          else sid \<noteq> sg_id sg \<and> unexecuted_row (st s) sid)"
  by (auto simp: unexecuted_row_def signals_record_execution mark_executed_def)

lemma sg_ids_mark_executed [simp]: "map sg_id (mark_executed sid tbl) = map sg_id tbl"
  by (simp add: mark_executed_def)

lemma once_inv_record_execution:
  assumes "once_inv c (st s) sid"
    and "sid = sg_id sg \<Longrightarrow> unexecuted_row (st s) sid \<and> \<not> signal_update_fails env sid"
  shows "once_inv c (st (record_execution env settings sg r price q s)) sid"
proof (cases "sid = sg_id sg")
  case True
  with assms have "orders_for (st s) sid = c" and "\<not> signal_update_fails env (sg_id sg)"
    by (auto simp: once_inv_def)
  with True show ?thesis
    by (simp add: once_inv_def orders_for_record_execution unexecuted_row_record_execution)
next
  case False
  with assms(1) show ?thesis
    by (auto simp: once_inv_def orders_for_record_execution unexecuted_row_record_execution)
qed

lemma once_inv_execute_signal:
  assumes "once_inv c (st s) sid"
    and "sid = sg_id sg \<Longrightarrow> unexecuted_row (st s) sid \<and> \<not> signal_update_fails env sid"
  shows "once_inv c (st (execute_signal env settings (sg, r) s)) sid"
  using execute_signal_cases [of env settings sg r s] assms
  by (auto simp: once_inv_record_execution)

lemma unexecuted_row_execute_signal:
  assumes "sid \<noteq> sg_id sg"
  shows "unexecuted_row (st (execute_signal env settings (sg, r) s)) sid
           \<longleftrightarrow> unexecuted_row (st s) sid"
  using execute_signal_cases [of env settings sg r s] assms
  by (auto simp: unexecuted_row_record_execution split: if_splits)

lemma sg_ids_execute_signal:
  "map sg_id (signals_tbl (st (execute_signal env settings (sg, r) s)))
     = map sg_id (signals_tbl (st s))"
  using execute_signal_cases [of env settings sg r s]
  by (auto simp: signals_record_execution)

lemma once_inv_fold_execute_signal:
  assumes "once_inv c (st s) sid"
    and "distinct (map (\<lambda>x. sg_id (fst x)) sigs)"
    and "\<forall>x\<in>set sigs. unexecuted_row (st s) (sg_id (fst x))"
    and "\<not> signal_update_fails env sid"
  shows "once_inv c (st (fold (execute_signal env settings) sigs s)) sid"
  using assms(1-3)
proof (induction sigs arbitrary: s)
  case Nil
  then show ?case by simp
next
  case (Cons x sigs)
  obtain sg r where x: "x = (sg, r)" by (cases x)
  have inv: "once_inv c (st (execute_signal env settings (sg, r) s)) sid"
    using Cons.prems assms(4) by (intro once_inv_execute_signal) (simp_all add: x)
  have rest: "\<forall>y\<in>set sigs. unexecuted_row (st (execute_signal env settings (sg, r) s)) (sg_id (fst y))"
  proof
    fix y assume y: "y \<in> set sigs"
    with Cons.prems(2) have "sg_id (fst y) \<noteq> sg_id sg" by (force simp: x)
    with Cons.prems(3) y show "unexecuted_row (st (execute_signal env settings (sg, r) s)) (sg_id (fst y))"
      by (simp add: unexecuted_row_execute_signal)
  qed
  from Cons.prems(2) have "distinct (map (\<lambda>x. sg_id (fst x)) sigs)" by simp
  from Cons.IH [OF inv this rest] show ?case by (simp add: x)
qed

lemma sg_ids_fold_execute_signal:
  "map sg_id (signals_tbl (st (fold (execute_signal env settings) sigs s)))
     = map sg_id (signals_tbl (st s))"
proof (induction sigs arbitrary: s)
  case Nil
  then show ?case by simp
next
  case (Cons x sigs)
  obtain sg r where x: "x = (sg, r)" by (cases x)
  show ?case by (simp add: x Cons.IH sg_ids_execute_signal)
qed

lemma map_fst_select_signals:
  "map fst
     (List.map_filter
        (\<lambda>sg. if sg_user_id sg = uid \<and> \<not> executed sg
              then (case signal_rule_id sg of
                      None \<Rightarrow> None
                    | Some rid \<Rightarrow> map_option (Pair sg) (find_rule db rid))
              else None) xs)
     = filter (selectable db uid) xs"
  by (induction xs) (auto simp: List.map_filter_simps selectable_def split: option.splits)

lemma map_fst_pending_signals:
  "map fst (pending_signals db uid) = filter (selectable db uid) (signals_tbl db)"
  unfolding pending_signals_def by (rule map_fst_select_signals)

lemma pending_signals_unexecuted:
  assumes "x \<in> set (pending_signals db uid)"
  shows "fst x \<in> set (signals_tbl db) \<and> \<not> executed (fst x) \<and> sg_user_id (fst x) = uid"
proof -
  from assms have "fst x \<in> set (map fst (pending_signals db uid))" by simp
  then show ?thesis by (simp add: map_fst_pending_signals selectable_def)
qed

lemma distinct_pending_signals:
  assumes "distinct (map sg_id (signals_tbl db))"
  shows "distinct (map (\<lambda>x. sg_id (fst x)) (pending_signals db uid))"
proof -
  have "map (\<lambda>x. sg_id (fst x)) (pending_signals db uid)
          = map sg_id (filter (selectable db uid) (signals_tbl db))"
    by (simp add: map_fst_pending_signals [symmetric])
  with assms show ?thesis by (simp add: distinct_map_filter)
qed

lemma process_user_cases:
  "(\<exists>e. process_user env settings s = skip e s)
   \<or> process_user env settings s
        = fold (execute_signal env settings) (pending_signals (st s) (ts_user_id settings)) s"
  by (auto simp: process_user_def)

lemma once_inv_process_user:
  assumes "once_inv c (st s) sid" and "distinct (map sg_id (signals_tbl (st s)))"
    and "\<not> signal_update_fails env sid"
  shows "once_inv c (st (process_user env settings s)) sid"
proof -
  have "once_inv c (st (fold (execute_signal env settings)
            (pending_signals (st s) (ts_user_id settings)) s)) sid"
  proof (rule once_inv_fold_execute_signal [OF assms(1) _ _ assms(3)])
    show "distinct (map (\<lambda>x. sg_id (fst x)) (pending_signals (st s) (ts_user_id settings)))"
      using assms(2) by (rule distinct_pending_signals)
    show "\<forall>x\<in>set (pending_signals (st s) (ts_user_id settings)).
            unexecuted_row (st s) (sg_id (fst x))"
      using pending_signals_unexecuted by (fastforce simp: unexecuted_row_def)
  qed
  with process_user_cases [of env settings s] assms(1) show ?thesis by auto
qed

lemma sg_ids_process_user:
  "map sg_id (signals_tbl (st (process_user env settings s))) = map sg_id (signals_tbl (st s))"
  using process_user_cases [of env settings s]
  by (auto simp: sg_ids_fold_execute_signal)

lemma once_inv_fold_process_user:
  assumes "once_inv c (st s) sid" and "distinct (map sg_id (signals_tbl (st s)))"
    and "\<not> signal_update_fails env sid"
  shows "once_inv c (st (fold (process_user env) users s)) sid
         \<and> map sg_id (signals_tbl (st (fold (process_user env) users s)))
             = map sg_id (signals_tbl (st s))"
  using assms(1,2)
proof (induction users arbitrary: s)
  case Nil
  then show ?case by simp
next
  case (Cons u users)
  have 1: "once_inv c (st (process_user env u s)) sid"
    using Cons.prems assms(3) by (rule once_inv_process_user)
  have 2: "distinct (map sg_id (signals_tbl (st (process_user env u s))))"
    using Cons.prems(2) by (simp add: sg_ids_process_user)
  from Cons.IH [OF 1 2] show ?case by (simp add: sg_ids_process_user)
qed

lemma once_inv_pass:
  assumes "once_inv c db sid" and "distinct (map sg_id (signals_tbl db))"
    and "\<not> signal_update_fails env sid"
  shows "once_inv c (st (execute_pending_signals env db)) sid
         \<and> map sg_id (signals_tbl (st (execute_pending_signals env db))) = map sg_id (signals_tbl db)"
  using once_inv_fold_process_user [of c "\<lparr>st = db, executed_out = [], skipped_out = []\<rparr>" sid env]
    assms
  by (simp add: execute_pending_signals_def)

lemma once_inv_run_passes:
  assumes "once_inv c db sid" and "distinct (map sg_id (signals_tbl db))"
    and "\<forall>env\<in>set envs. \<not> signal_update_fails env sid"
  shows "once_inv c (run_passes envs db) sid"
  using assms
proof (induction envs arbitrary: db)
  case Nil
  then show ?case by (simp add: run_passes_def)
next
  case (Cons env envs)
  from Cons.prems(3) have e: "\<not> signal_update_fails env sid" by simp
  from once_inv_pass [OF Cons.prems(1,2) e]
  have "once_inv c (st (execute_pending_signals env db)) sid"
    and "distinct (map sg_id (signals_tbl (st (execute_pending_signals env db))))"
    using Cons.prems(2) by simp_all
  moreover from Cons.prems(3) have "\<forall>env\<in>set envs. \<not> signal_update_fails env sid" by simp
  ultimately have "once_inv c (run_passes envs (st (execute_pending_signals env db))) sid"
    by (rule Cons.IH)
  then show ?case by (simp add: run_passes_def)
qed

lemma orders_for_run_passes:
  assumes "distinct (map sg_id (signals_tbl db))"
    and "\<forall>env\<in>set envs. \<not> signal_update_fails env sid"
  shows "orders_for (run_passes envs db) sid \<le> orders_for db sid + 1"
proof -
  have "once_inv (orders_for db sid) db sid" by (simp add: once_inv_def)
  from once_inv_run_passes [OF this assms]
  show ?thesis by (auto simp: once_inv_def)
qed

text \<open>
  Claim C1, amended. In a store whose signal ids are distinct (the primary key), over
  any number of runs of the execute-pending-signals pass in none of which the update
  that marks the signal executed fails, whatever the clock and the other failures of
  each run, the number of orders of the signal id grows by at most one; in particular
  for two runs. The selection of a user's signals holds only signals that are not
  executed. For a signal with a valid price and a positive quantity: when the order
  insert fails the state is unchanged (neither the mark nor the position is written) and
  the loop goes on with the remaining signals; when it succeeds one order of the signal
  is added, every row of the signal is marked executed if the update takes effect and the
  signals are left as they were if it fails, and one position is added unless its insert
  fails.
\<close>

theorem at_most_one_order_per_signal:
  assumes "distinct (map sg_id (signals_tbl db))"
    and "\<forall>e\<in>set envs. \<not> signal_update_fails e sid"
  shows "orders_for (run_passes envs db) sid \<le> orders_for db sid + 1
    \<and> (\<not> signal_update_fails env1 sid \<and> \<not> signal_update_fails env2 sid \<longrightarrow>
         orders_for (run_passes [env1, env2] db) sid \<le> orders_for db sid + 1)
    \<and> (\<forall>x\<in>set (pending_signals db uid). \<not> executed (fst x))
    \<and> (price_at_signal sg = Finite price \<and> 0 < price
         \<and> 0 < calculatePositionSize settings r (Finite price) defaultAccountValue \<longrightarrow>
        (if order_insert_fails env (sg_id sg)
         then execute_signal env settings (sg, r) s = s
              \<and> fold (execute_signal env settings) ((sg, r) # rest) s
                  = fold (execute_signal env settings) rest s
         else orders_for (st (execute_signal env settings (sg, r) s)) (sg_id sg)
                = orders_for (st s) (sg_id sg) + 1
              \<and> (\<not> signal_update_fails env (sg_id sg) \<longrightarrow>
                   (\<forall>x\<in>set (signals_tbl (st (execute_signal env settings (sg, r) s))).
                      sg_id x = sg_id sg \<longrightarrow> executed x))
              \<and> (signal_update_fails env (sg_id sg) \<longrightarrow>
                   signals_tbl (st (execute_signal env settings (sg, r) s)) = signals_tbl (st s))
              \<and> length (positions_tbl (st (execute_signal env settings (sg, r) s)))
                  = length (positions_tbl (st s))
                    + (if position_insert_fails env (sg_id sg) then 0 else 1)))"
proof (intro conjI impI)
  show "orders_for (run_passes envs db) sid \<le> orders_for db sid + 1"
    using assms by (rule orders_for_run_passes)
  show "\<forall>x\<in>set (pending_signals db uid). \<not> executed (fst x)"
    using pending_signals_unexecuted by blast
next
  assume "\<not> signal_update_fails env1 sid \<and> \<not> signal_update_fails env2 sid"
  then have "\<forall>e\<in>set [env1, env2]. \<not> signal_update_fails e sid" by simp
  with assms(1) show "orders_for (run_passes [env1, env2] db) sid \<le> orders_for db sid + 1"
    by (rule orders_for_run_passes)
next
  assume a: "price_at_signal sg = Finite price \<and> 0 < price
         \<and> 0 < calculatePositionSize settings r (Finite price) defaultAccountValue"
  show "if order_insert_fails env (sg_id sg)
         then execute_signal env settings (sg, r) s = s
              \<and> fold (execute_signal env settings) ((sg, r) # rest) s
                  = fold (execute_signal env settings) rest s
         else orders_for (st (execute_signal env settings (sg, r) s)) (sg_id sg)
                = orders_for (st s) (sg_id sg) + 1
              \<and> (\<not> signal_update_fails env (sg_id sg) \<longrightarrow>
                   (\<forall>x\<in>set (signals_tbl (st (execute_signal env settings (sg, r) s))).
                      sg_id x = sg_id sg \<longrightarrow> executed x))
              \<and> (signal_update_fails env (sg_id sg) \<longrightarrow>
                   signals_tbl (st (execute_signal env settings (sg, r) s)) = signals_tbl (st s))
              \<and> length (positions_tbl (st (execute_signal env settings (sg, r) s)))
                  = length (positions_tbl (st s))
                    + (if position_insert_fails env (sg_id sg) then 0 else 1)"
  proof (cases "order_insert_fails env (sg_id sg)")
    case True
    with a have "execute_signal env settings (sg, r) s = s"
      by (simp add: execute_signal_insert_fails)
    with True show ?thesis by simp
  next
    case False
    with a have e: "execute_signal env settings (sg, r) s
        = record_execution env settings sg r price
            (calculatePositionSize settings r (Finite price) defaultAccountValue) s"
      by (simp add: execute_signal_ok)
    have "\<not> signal_update_fails env (sg_id sg) \<longrightarrow>
            (\<forall>x\<in>set (signals_tbl (st (execute_signal env settings (sg, r) s))).
                    sg_id x = sg_id sg \<longrightarrow> executed x)"
      by (auto simp: e signals_record_execution mark_executed_def)
    moreover have "signal_update_fails env (sg_id sg) \<longrightarrow>
            signals_tbl (st (execute_signal env settings (sg, r) s)) = signals_tbl (st s)"
      by (simp add: e signals_record_execution)
    moreover have "length (positions_tbl (st (execute_signal env settings (sg, r) s)))
                  = length (positions_tbl (st s))
                    + (if position_insert_fails env (sg_id sg) then 0 else 1)"
      by (simp only: e positions_record_execution)
    ultimately show ?thesis
      using False by (simp add: e orders_for_record_execution)
  qed
qed

text \<open>
  The theorem on the worked store with two pending signals: in the first run the order
  insert of signal 4 fails, so signal 3 gets its order and signal 4 none; the second run
  gives signal 4 its order and signal 3 no second one.
\<close>

theorem at_most_one_order_per_signal_witness:
  "orders_for (example_store (example_settings (Some 10))
       [example_signal 3 bb_breakout_up (Finite 100), example_signal 4 bb_breakout_down (Finite 100)]
       []) 3 = 0
   \<and> orders_for (run_passes [example_env ''10:00:00'' (\<lambda>sid. sid = 4)]
       (example_store (example_settings (Some 10))
          [example_signal 3 bb_breakout_up (Finite 100), example_signal 4 bb_breakout_down (Finite 100)]
          [])) 3 = 1
   \<and> orders_for (run_passes [example_env ''10:00:00'' (\<lambda>sid. sid = 4)]
       (example_store (example_settings (Some 10))
          [example_signal 3 bb_breakout_up (Finite 100), example_signal 4 bb_breakout_down (Finite 100)]
          [])) 4 = 0
   \<and> orders_for (run_passes [example_env ''10:00:00'' (\<lambda>sid. sid = 4),
                              example_env ''10:05:00'' (\<lambda>_. False)]
       (example_store (example_settings (Some 10))
          [example_signal 3 bb_breakout_up (Finite 100), example_signal 4 bb_breakout_down (Finite 100)]
          [])) 3 = 1
   \<and> orders_for (run_passes [example_env ''10:00:00'' (\<lambda>sid. sid = 4),
                              example_env ''10:05:00'' (\<lambda>_. False)]
       (example_store (example_settings (Some 10))
          [example_signal 3 bb_breakout_up (Finite 100), example_signal 4 bb_breakout_down (Finite 100)]
          [])) 4 = 1"
  using at_most_one_order_per_signal
    [where db = "example_store (example_settings (Some 10))
          [example_signal 3 bb_breakout_up (Finite 100), example_signal 4 bb_breakout_down (Finite 100)]
          []"
       and envs = "[example_env ''10:00:00'' (\<lambda>sid. sid = 4), example_env ''10:05:00'' (\<lambda>_. False)]"
       and sid = 3]
  by (simp add: run_passes_def example_pass_simps new_order_def orders_for_def mark_executed_def)

text \<open>
  The claim as stated fails: when in the first run the update that marks signal 3 fails
  (its order insert having succeeded), the signal keeps \<open>executed = false\<close>, the second
  run selects it again and signal 3 has two orders.
\<close>

theorem second_order_counterexample:
  "distinct (map sg_id (signals_tbl (example_store (example_settings (Some 10))
       [example_signal 3 bb_breakout_up (Finite 100)] [])))
   \<and> orders_for (example_store (example_settings (Some 10))
       [example_signal 3 bb_breakout_up (Finite 100)] []) 3 = 0
   \<and> map executed (signals_tbl (run_passes
       [(example_env ''10:00:00'' (\<lambda>_. False))\<lparr>signal_update_fails := (\<lambda>sid. sid = 3)\<rparr>]
       (example_store (example_settings (Some 10))
          [example_signal 3 bb_breakout_up (Finite 100)] []))) = [False]
   \<and> orders_for (run_passes
       [(example_env ''10:00:00'' (\<lambda>_. False))\<lparr>signal_update_fails := (\<lambda>sid. sid = 3)\<rparr>,
        example_env ''10:05:00'' (\<lambda>_. False)]
       (example_store (example_settings (Some 10))
          [example_signal 3 bb_breakout_up (Finite 100)] [])) 3 = 2"
  by (simp add: run_passes_def example_pass_simps new_order_def orders_for_def mark_executed_def)

section \<open>Risk gate\<close>

lemma todaysTrades_user_orders:
  "todaysTrades env db uid
     = length (filter (\<lambda>r. created_at r \<ge> today_start env) (user_orders db uid))"
  by (simp add: todaysTrades_def user_orders_def conj_commute)

lemma user_orders_record_execution:
  "ts_user_id settings \<noteq> uid \<Longrightarrow>
     user_orders (st (record_execution env settings sg r price q s)) uid = user_orders (st s) uid"
  by (simp add: user_orders_def record_execution_def new_order_def)

lemma user_orders_execute_signal:
  assumes "ts_user_id settings \<noteq> uid"
  shows "user_orders (st (execute_signal env settings (sg, r) s)) uid = user_orders (st s) uid"
  using execute_signal_cases [of env settings sg r s] assms
  by (auto simp: user_orders_record_execution)

lemma user_orders_fold_execute_signal:
  assumes "ts_user_id settings \<noteq> uid"
  shows "user_orders (st (fold (execute_signal env settings) sigs s)) uid = user_orders (st s) uid"
proof (induction sigs arbitrary: s)
  case Nil
  then show ?case by simp
next
  case (Cons x sigs)
  obtain sg r where x: "x = (sg, r)" by (cases x)
  show ?case by (simp add: x Cons.IH user_orders_execute_signal [OF assms])
qed

lemma user_orders_process_user:
  assumes "ts_user_id settings \<noteq> uid"
  shows "user_orders (st (process_user env settings s)) uid = user_orders (st s) uid"
  using process_user_cases [of env settings s]
  by (auto simp: user_orders_fold_execute_signal [OF assms])

lemma process_user_outside_hours:
  assumes "\<not> isWithinTradingHours (current_time env)
             (trading_hours_start settings) (trading_hours_end settings)"
  shows "process_user env settings s
           = skip (SkipUser (ts_user_id settings) ''Outside trading hours'') s"
  using assms by (simp add: process_user_def)

lemma process_user_at_limit:
  assumes "isWithinTradingHours (current_time env)
             (trading_hours_start settings) (trading_hours_end settings)"
    and "int (todaysTrades env (st s) (ts_user_id settings)) \<ge> maxDailyTrades settings"
  shows "process_user env settings s
           = skip (SkipUser (ts_user_id settings) ''Max daily trades reached'') s"
  using assms by (simp add: process_user_def)

lemma process_user_gate_closed:
  assumes "gate_closed env (st s) settings"
  shows "st (process_user env settings s) = st s
         \<and> executed_out (process_user env settings s) = executed_out s"
proof (cases "isWithinTradingHours (current_time env)
             (trading_hours_start settings) (trading_hours_end settings)")
  case True
  with assms have "int (todaysTrades env (st s) (ts_user_id settings)) \<ge> maxDailyTrades settings"
    by (simp add: gate_closed_def)
  from process_user_at_limit [OF True this] show ?thesis by simp
next
  case False
  from process_user_outside_hours [OF this] show ?thesis by simp
qed

lemma gate_closed_cong:
  "user_orders db' (ts_user_id settings) = user_orders db (ts_user_id settings) \<Longrightarrow>
     gate_closed env db' settings = gate_closed env db settings"
  by (simp add: gate_closed_def todaysTrades_user_orders)

lemma fold_process_user_gate_closed:
  assumes "\<forall>settings\<in>set users. ts_user_id settings = uid \<longrightarrow> gate_closed env (st s) settings"
  shows "user_orders (st (fold (process_user env) users s)) uid = user_orders (st s) uid"
  using assms
proof (induction users arbitrary: s)
  case Nil
  then show ?case by simp
next
  case (Cons u users)
  have same: "user_orders (st (process_user env u s)) uid = user_orders (st s) uid"
  proof (cases "ts_user_id u = uid")
    case True
    with Cons.prems have "gate_closed env (st s) u" by simp
    then show ?thesis by (simp add: process_user_gate_closed)
  next
    case False
    then show ?thesis by (rule user_orders_process_user)
  qed
  have "\<forall>settings\<in>set users. ts_user_id settings = uid \<longrightarrow>
          gate_closed env (st (process_user env u s)) settings"
  proof (intro ballI impI)
    fix settings assume m: "settings \<in> set users" and i: "ts_user_id settings = uid"
    with Cons.prems have g: "gate_closed env (st s) settings" by simp
    from same i have "user_orders (st (process_user env u s)) (ts_user_id settings)
        = user_orders (st s) (ts_user_id settings)" by simp
    from gate_closed_cong [OF this, of env] g
    show "gate_closed env (st (process_user env u s)) settings" by simp
  qed
  from Cons.IH [OF this] same show ?case by simp
qed

lemma pass_gate_closed:
  assumes "\<forall>settings\<in>set (trading_settings_tbl db).
             ts_user_id settings = uid \<longrightarrow> gate_closed env db settings"
  shows "user_orders (st (execute_pending_signals env db)) uid = user_orders db uid"
  using fold_process_user_gate_closed
    [of "filter auto_trade_enabled (trading_settings_tbl db)" uid env
        "\<lparr>st = db, executed_out = [], skipped_out = []\<rparr>"] assms
  by (simp add: execute_pending_signals_def)

lemma maxDailyTrades_range: "1 \<le> maxDailyTrades settings \<and> maxDailyTrades settings \<le> 1000"
  by (simp add: maxDailyTrades_def)

text \<open>
  Claim C3, amended. \<open>maxDailyTrades\<close> is the setting (10 when it is absent or 0)
  clamped to [1, 1000]. For every user, if the count of the user's orders created today
  is not less than \<open>maxDailyTrades\<close>, processing the user leaves the store and the list of
  executed signals unchanged, and, when the current time is within the trading hours, it
  skips the user with the reason \<open>Max daily trades reached\<close>. If this holds of every
  settings row of a user when the pass starts, the pass leaves the orders of the user
  unchanged, however many signals are pending. With the setting 1, \<open>maxDailyTrades\<close> is
  1, so one order created today is enough.
\<close>

theorem max_daily_trades_gate:
  "(int (todaysTrades env (st s) (ts_user_id settings)) \<ge> maxDailyTrades settings \<longrightarrow>
       st (process_user env settings s) = st s
       \<and> executed_out (process_user env settings s) = executed_out s
       \<and> (isWithinTradingHours (current_time env)
             (trading_hours_start settings) (trading_hours_end settings) \<longrightarrow>
            process_user env settings s
              = skip (SkipUser (ts_user_id settings) ''Max daily trades reached'') s))
   \<and> ((\<forall>settings\<in>set (trading_settings_tbl db). ts_user_id settings = uid \<longrightarrow>
          int (todaysTrades env db uid) \<ge> maxDailyTrades settings) \<longrightarrow>
       user_orders (st (execute_pending_signals env db)) uid = user_orders db uid)
   \<and> maxDailyTrades settings
       = max 1 (min 1000 (case max_daily_trades settings of
                            None \<Rightarrow> 10 | Some n \<Rightarrow> if n = 0 then 10 else n))
   \<and> (max_daily_trades settings = Some 1 \<longrightarrow> maxDailyTrades settings = 1)"
proof (intro conjI impI)
  assume a: "int (todaysTrades env (st s) (ts_user_id settings)) \<ge> maxDailyTrades settings"
  then have g: "gate_closed env (st s) settings" by (simp add: gate_closed_def)
  from process_user_gate_closed [OF g]
  show "st (process_user env settings s) = st s"
    and "executed_out (process_user env settings s) = executed_out s" by simp_all
  assume "isWithinTradingHours (current_time env)
             (trading_hours_start settings) (trading_hours_end settings)"
  from process_user_at_limit [OF this a]
  show "process_user env settings s
              = skip (SkipUser (ts_user_id settings) ''Max daily trades reached'') s" .
next
  assume "\<forall>settings\<in>set (trading_settings_tbl db). ts_user_id settings = uid \<longrightarrow>
          int (todaysTrades env db uid) \<ge> maxDailyTrades settings"
  then have "\<forall>settings\<in>set (trading_settings_tbl db).
             ts_user_id settings = uid \<longrightarrow> gate_closed env db settings"
    by (auto simp: gate_closed_def)
  then show "user_orders (st (execute_pending_signals env db)) uid = user_orders db uid"
    by (rule pass_gate_closed)
next
  show "maxDailyTrades settings
       = max 1 (min 1000 (case max_daily_trades settings of
                            None \<Rightarrow> 10 | Some n \<Rightarrow> if n = 0 then 10 else n))"
    by (simp add: maxDailyTrades_def or_default_def)
next
  assume "max_daily_trades settings = Some 1"
  then show "maxDailyTrades settings = 1" by (simp add: maxDailyTrades_def or_default_def)
qed

text \<open>
  The theorem on the worked store at 10:00:00: with the limit 1 and one order today the
  user is skipped and the pass leaves the orders of the user as they were.
\<close>

theorem max_daily_trades_gate_witness:
  "process_user (example_env ''10:00:00'' (\<lambda>_. False)) (example_settings (Some 1))
      (example_state (example_settings (Some 1))
         [example_signal 3 bb_breakout_up (Finite 100)] [example_today_order])
     = skip (SkipUser 1 ''Max daily trades reached'')
         (example_state (example_settings (Some 1))
            [example_signal 3 bb_breakout_up (Finite 100)] [example_today_order])
   \<and> user_orders (st (execute_pending_signals (example_env ''10:00:00'' (\<lambda>_. False))
        (example_store (example_settings (Some 1))
           [example_signal 3 bb_breakout_up (Finite 100)] [example_today_order]))) 1
       = [example_today_order]
   \<and> maxDailyTrades (example_settings (Some 1)) = 1
   \<and> maxDailyTrades (example_settings (Some 5000)) = 1000"
  using max_daily_trades_gate
    [where env = "example_env ''10:00:00'' (\<lambda>_. False)"
       and s = "example_state (example_settings (Some 1))
                  [example_signal 3 bb_breakout_up (Finite 100)] [example_today_order]"
       and settings = "example_settings (Some 1)"
       and db = "example_store (example_settings (Some 1))
                  [example_signal 3 bb_breakout_up (Finite 100)] [example_today_order]"
       and uid = 1]
    max_daily_trades_gate
    [where env = "example_env ''10:00:00'' (\<lambda>_. False)"
       and s = "example_state (example_settings (Some 1))
                  [example_signal 3 bb_breakout_up (Finite 100)] [example_today_order]"
       and settings = "example_settings (Some 5000)"
       and db = "example_store (example_settings (Some 1))
                  [example_signal 3 bb_breakout_up (Finite 100)] [example_today_order]"
       and uid = 1]
  by (simp add: example_env_fields example_settings_fields example_store_fields user_orders_def
      example_hours todaysTrades_def example_today_order_fields example_state_def)

text \<open>
  The claim as stated fails: at 08:00:00 a user with one order today and the limit 1 is
  skipped with the reason \<open>Outside trading hours\<close>; and with the setting 0 (which the
  interval [1, 1000] would clamp to 1) and one order today a second signal is executed at
  10:00:00, the limit being the default 10.
\<close>

theorem max_daily_trades_reason_counterexample:
  "todaysTrades (example_env ''08:00:00'' (\<lambda>_. False))
      (example_store (example_settings (Some 1))
         [example_signal 3 bb_breakout_up (Finite 100)] [example_today_order]) 1 = 1
   \<and> maxDailyTrades (example_settings (Some 1)) = 1
   \<and> skipped_out (execute_pending_signals (example_env ''08:00:00'' (\<lambda>_. False))
        (example_store (example_settings (Some 1))
           [example_signal 3 bb_breakout_up (Finite 100)] [example_today_order]))
       = [SkipUser 1 ''Outside trading hours'']
   \<and> todaysTrades (example_env ''10:00:00'' (\<lambda>_. False))
      (example_store (example_settings (Some 0))
         [example_signal 3 bb_breakout_up (Finite 100)] [example_today_order]) 1 = 1
   \<and> max (1::int) (min 1000 0) = 1
   \<and> map o_signal_id (orders_tbl (st (execute_pending_signals (example_env ''10:00:00'' (\<lambda>_. False))
        (example_store (example_settings (Some 0))
           [example_signal 3 bb_breakout_up (Finite 100)] [example_today_order]))))
       = [Some 9, Some 3]"
  by (simp add: example_pass_simps new_order_def)

text \<open>
  Claim C9, amended. The trading hours are the closed interval from
  \<open>trading_hours_start\<close> to \<open>trading_hours_end\<close>, compared as strings. For every time
  before the start or after the end, processing the user skips the user with the reason
  \<open>Outside trading hours\<close>, and if this holds of every settings row of a user the pass
  leaves the orders of the user unchanged. At exactly \<open>trading_hours_end\<close> the time is
  within the trading hours (when the start is not after the end).
\<close>

theorem trading_hours_closed_interval:
  "(isWithinTradingHours t start end' \<longleftrightarrow> start \<le> t \<and> t \<le> end')
   \<and> (current_time env < trading_hours_start settings
        \<or> trading_hours_end settings < current_time env \<longrightarrow>
       process_user env settings s
         = skip (SkipUser (ts_user_id settings) ''Outside trading hours'') s)
   \<and> ((\<forall>settings\<in>set (trading_settings_tbl db). ts_user_id settings = uid \<longrightarrow>
          current_time env < trading_hours_start settings
          \<or> trading_hours_end settings < current_time env) \<longrightarrow>
       user_orders (st (execute_pending_signals env db)) uid = user_orders db uid)
   \<and> (trading_hours_start settings \<le> trading_hours_end settings \<longrightarrow>
       isWithinTradingHours (trading_hours_end settings)
         (trading_hours_start settings) (trading_hours_end settings))"
proof (intro conjI impI)
  show "isWithinTradingHours t start end' \<longleftrightarrow> start \<le> t \<and> t \<le> end'"
    by (auto simp: isWithinTradingHours_def)
next
  assume "current_time env < trading_hours_start settings
        \<or> trading_hours_end settings < current_time env"
  then have "\<not> isWithinTradingHours (current_time env)
             (trading_hours_start settings) (trading_hours_end settings)"
    by (auto simp: isWithinTradingHours_def)
  then show "process_user env settings s
         = skip (SkipUser (ts_user_id settings) ''Outside trading hours'') s"
    by (rule process_user_outside_hours)
next
  assume "\<forall>settings\<in>set (trading_settings_tbl db). ts_user_id settings = uid \<longrightarrow>
          current_time env < trading_hours_start settings
          \<or> trading_hours_end settings < current_time env"
  then have "\<forall>settings\<in>set (trading_settings_tbl db).
             ts_user_id settings = uid \<longrightarrow> gate_closed env db settings"
    by (auto simp: gate_closed_def isWithinTradingHours_def)
  then show "user_orders (st (execute_pending_signals env db)) uid = user_orders db uid"
    by (rule pass_gate_closed)
next
  assume "trading_hours_start settings \<le> trading_hours_end settings"
  then show "isWithinTradingHours (trading_hours_end settings)
         (trading_hours_start settings) (trading_hours_end settings)"
    by (simp add: isWithinTradingHours_def)
qed

text \<open>
  The theorem on the worked store: at 16:00:01 and at 08:00:00 the user is skipped, and
  16:00:00 is within the trading hours.
\<close>

theorem trading_hours_closed_interval_witness:
  "process_user (example_env ''16:00:01'' (\<lambda>_. False)) (example_settings (Some 1))
      (example_state (example_settings (Some 1)) [example_signal 3 bb_breakout_up (Finite 100)] [])
     = skip (SkipUser 1 ''Outside trading hours'')
         (example_state (example_settings (Some 1)) [example_signal 3 bb_breakout_up (Finite 100)] [])
   \<and> process_user (example_env ''08:00:00'' (\<lambda>_. False)) (example_settings (Some 1))
      (example_state (example_settings (Some 1)) [example_signal 3 bb_breakout_up (Finite 100)] [])
     = skip (SkipUser 1 ''Outside trading hours'')
         (example_state (example_settings (Some 1)) [example_signal 3 bb_breakout_up (Finite 100)] [])
   \<and> user_orders (st (execute_pending_signals (example_env ''08:00:00'' (\<lambda>_. False))
        (example_store (example_settings (Some 1))
           [example_signal 3 bb_breakout_up (Finite 100)] []))) 1 = []
   \<and> isWithinTradingHours ''16:00:00'' ''09:30:00'' ''16:00:00''"
  using trading_hours_closed_interval
    [where t = "''16:00:00''" and start = "''09:30:00''" and end' = "''16:00:00''"
       and env = "example_env ''16:00:01'' (\<lambda>_. False)"
       and settings = "example_settings (Some 1)"
       and s = "example_state (example_settings (Some 1))
                  [example_signal 3 bb_breakout_up (Finite 100)] []"
       and db = "example_store (example_settings (Some 1))
                  [example_signal 3 bb_breakout_up (Finite 100)] []"
       and uid = 1]
    trading_hours_closed_interval
    [where t = "''16:00:00''" and start = "''09:30:00''" and end' = "''16:00:00''"
       and env = "example_env ''08:00:00'' (\<lambda>_. False)"
       and settings = "example_settings (Some 1)"
       and s = "example_state (example_settings (Some 1))
                  [example_signal 3 bb_breakout_up (Finite 100)] []"
       and db = "example_store (example_settings (Some 1))
                  [example_signal 3 bb_breakout_up (Finite 100)] []"
       and uid = 1]
  by (simp add: example_env_fields example_settings_fields example_store_fields user_orders_def
      less_char_def less_eq_char_def)

text \<open>
  The claim as stated fails: at exactly \<open>trading_hours_end\<close> (16:00:00) the pending
  signal of the worked store is executed and nothing is skipped.
\<close>

theorem trading_hours_end_counterexample:
  "current_time (example_env ''16:00:00'' (\<lambda>_. False))
     = trading_hours_end (example_settings (Some 1))
   \<and> map o_signal_id (orders_tbl (st (execute_pending_signals (example_env ''16:00:00'' (\<lambda>_. False))
        (example_store (example_settings (Some 1))
           [example_signal 3 bb_breakout_up (Finite 100)] [])))) = [Some 3]
   \<and> skipped_out (execute_pending_signals (example_env ''16:00:00'' (\<lambda>_. False))
        (example_store (example_settings (Some 1))
           [example_signal 3 bb_breakout_up (Finite 100)] [])) = []"
  by (simp add: example_pass_simps new_order_def)

section \<open>Trailing stops\<close>

lemma p_id_refreshed [simp]: "p_id (refreshed p c d row) = p_id row"
  by (simp add: refreshed_def)

lemma distinct_map_eq:
  "distinct (map f xs) \<Longrightarrow> x \<in> set xs \<Longrightarrow> y \<in> set xs \<Longrightarrow> f x = f y \<Longrightarrow> x = y"
  by (auto simp: distinct_map dest: inj_onD)

lemma fst_monitor_step:
  "fst (monitor_step env sel (tbl, ups)) = map (row_updates env [sel]) tbl"
proof (cases "stop_moves (fst sel)
                 (newTrailingStop (mockPrice (avg_cost (fst sel)) (random env (p_id (fst sel)))) (snd sel))
               \<and> \<not> update_fails env (p_id (fst sel))")
  case True
  then show ?thesis
    by (cases sel) (simp add: monitor_step_def monitor_position_def)
next
  case False
  then have "map (row_updates env [sel]) tbl = map (\<lambda>row. row) tbl"
    by (intro map_cong [OF refl]) auto
  with False show ?thesis
    by (cases sel) (auto simp: monitor_step_def monitor_position_def)
qed

lemma row_updates_other:
  "p_id row \<notin> (\<lambda>x. p_id (fst x)) ` set sels \<Longrightarrow> row_updates env sels row = row"
  by (induction sels) auto

lemma p_id_row_updates [simp]: "p_id (row_updates env sels row) = p_id row"
  by (induction sels) auto

lemma fold_monitor_step:
  assumes "distinct (map (\<lambda>x. p_id (fst x)) sels)"
  shows "fst (fold (monitor_step env) sels (tbl, ups)) = map (row_updates env sels) tbl"
  using assms
proof (induction sels arbitrary: tbl ups)
  case Nil
  then show ?case by simp
next
  case (Cons sel sels)
  obtain tbl' ups' where step: "monitor_step env sel (tbl, ups) = (tbl', ups')"
    by (cases "monitor_step env sel (tbl, ups)")
  then have tbl': "tbl' = map (row_updates env [sel]) tbl"
    using fst_monitor_step [of env sel tbl ups] by simp
  from Cons.prems have d: "distinct (map (\<lambda>x. p_id (fst x)) sels)"
    and notin: "p_id (fst sel) \<notin> (\<lambda>x. p_id (fst x)) ` set sels" by simp_all
  have "fst (fold (monitor_step env) (sel # sels) (tbl, ups))
          = map (row_updates env sels) tbl'"
    using Cons.IH [OF d, of tbl' ups'] by (simp add: step)
  also have "\<dots> = map (row_updates env (sel # sels)) tbl"
    unfolding tbl' map_map
  proof (rule map_cong [OF refl])
    fix row
    show "(row_updates env sels \<circ> row_updates env [sel]) row = row_updates env (sel # sels) row"
    proof (cases "p_id row = p_id (fst sel)")
      case True
      then have "p_id (row_updates env [sel] row) \<notin> (\<lambda>x. p_id (fst x)) ` set sels"
        using notin by simp
      then have "row_updates env sels (row_updates env [sel] row) = row_updates env [sel] row"
        by (rule row_updates_other)
      with True show ?thesis by simp
    next
      case False
      then show ?thesis by simp
    qed
  qed
  finally show ?case .
qed

lemma map_fst_map_filter_Pair:
  "map fst (List.map_filter (\<lambda>p. map_option (Pair p) (g p)) xs) = filter (\<lambda>p. g p \<noteq> None) xs"
  by (induction xs) (auto simp: List.map_filter_simps split: option.splits)

lemma set_map_filter_Pair:
  "(p, v) \<in> set (List.map_filter (\<lambda>p. map_option (Pair p) (g p)) xs)
     \<longleftrightarrow> p \<in> set xs \<and> g p = Some v"
  by (induction xs) (auto simp: List.map_filter_simps split: option.splits)

lemma map_fst_trailing_positions:
  "map fst (trailing_positions db)
     = filter (\<lambda>p. order_trailing_percent db p \<noteq> None) (positions_tbl db)"
  unfolding trailing_positions_def by (rule map_fst_map_filter_Pair)

lemma trailing_positions_mem:
  "(p, pct) \<in> set (trailing_positions db)
     \<longleftrightarrow> p \<in> set (positions_tbl db) \<and> order_trailing_percent db p = Some pct"
  unfolding trailing_positions_def by (rule set_map_filter_Pair)

lemma row_updates_selected:
  assumes "\<forall>x\<in>set sels. p_id (fst x) = p_id row \<longrightarrow> x = (row, pct)"
    and "(row, pct) \<in> set sels"
  shows "row_updates env sels row = row_updates env [(row, pct)] row"
  using assms
proof (induction sels)
  case Nil
  then show ?case by simp
next
  case (Cons sel sels)
  show ?case
  proof (cases "p_id row = p_id (fst sel)")
    case True
    with Cons.prems(1) have "sel = (row, pct)" by simp
    then show ?thesis by simp
  next
    case False
    with Cons.prems(2) have mem: "(row, pct) \<in> set sels" by auto
    from Cons.prems(1) have "\<forall>x\<in>set sels. p_id (fst x) = p_id row \<longrightarrow> x = (row, pct)"
      by simp
    from Cons.IH [OF this mem] False show ?thesis by simp
  qed
qed

lemma row_updates_trailing_positions:
  assumes "distinct (map p_id (positions_tbl db))" and "row \<in> set (positions_tbl db)"
  shows "row_updates env (trailing_positions db) row = monitor_row env db row"
proof (cases "order_trailing_percent db row")
  case None
  have "p_id row \<notin> (\<lambda>x. p_id (fst x)) ` set (trailing_positions db)"
  proof
    assume "p_id row \<in> (\<lambda>x. p_id (fst x)) ` set (trailing_positions db)"
    then obtain p pct where sel: "(p, pct) \<in> set (trailing_positions db)" and id: "p_id p = p_id row"
      by force
    then have "p \<in> set (positions_tbl db)" by (simp add: trailing_positions_mem)
    from distinct_map_eq [OF assms(1) this assms(2) id] have "p = row" .
    with sel None show False by (simp add: trailing_positions_mem)
  qed
  then have "row_updates env (trailing_positions db) row = row" by (rule row_updates_other)
  with None show ?thesis by (simp add: monitor_row_def)
next
  case (Some pct)
  have one: "\<forall>x\<in>set (trailing_positions db). p_id (fst x) = p_id row \<longrightarrow> x = (row, pct)"
  proof (intro ballI impI)
    fix x assume x: "x \<in> set (trailing_positions db)" and id: "p_id (fst x) = p_id row"
    obtain p q where xp: "x = (p, q)" by (cases x)
    with x have mem: "p \<in> set (positions_tbl db)" and q: "order_trailing_percent db p = Some q"
      by (simp_all add: trailing_positions_mem)
    from id xp have "p_id p = p_id row" by simp
    from distinct_map_eq [OF assms(1) mem assms(2) this] have "p = row" .
    with q Some xp show "x = (row, pct)" by simp
  qed
  have "(row, pct) \<in> set (trailing_positions db)"
    using assms(2) Some by (simp add: trailing_positions_mem)
  from row_updates_selected [OF one this]
  show ?thesis by (simp add: monitor_row_def Some Let_def)
qed

lemma distinct_trailing_positions:
  assumes "distinct (map p_id (positions_tbl db))"
  shows "distinct (map (\<lambda>x. p_id (fst x)) (trailing_positions db))"
proof -
  have "map (\<lambda>x. p_id (fst x)) (trailing_positions db) = map p_id (map fst (trailing_positions db))"
    by simp
  then have "map (\<lambda>x. p_id (fst x)) (trailing_positions db)
          = map p_id (filter (\<lambda>p. order_trailing_percent db p \<noteq> None) (positions_tbl db))"
    by (simp only: map_fst_trailing_positions)
  with assms show ?thesis by (simp add: distinct_map_filter)
qed

lemma update_trailing_stops_rows:
  assumes "distinct (map p_id (positions_tbl db))"
  shows "fst (update_trailing_stops env db)
           = db\<lparr>positions_tbl := map (monitor_row env db) (positions_tbl db)\<rparr>"
proof -
  have "fst (fold (monitor_step env) (trailing_positions db) (positions_tbl db, []))
          = map (row_updates env (trailing_positions db)) (positions_tbl db)"
    using assms by (simp add: fold_monitor_step distinct_trailing_positions)
  also have "\<dots> = map (monitor_row env db) (positions_tbl db)"
    by (intro map_cong [OF refl]) (simp add: row_updates_trailing_positions assms)
  finally show ?thesis
    by (cases "fold (monitor_step env) (trailing_positions db) (positions_tbl db, [])")
       (simp add: update_trailing_stops_def)
qed

lemma trailingPercent_bounds: "0.1 \<le> trailingPercent x \<and> trailingPercent x \<le> 50"
  by (simp add: trailingPercent_def)

lemma mockPrice_pos:
  assumes "0 < a" and "0 \<le> r" and "r < 1"
  shows "0 < mockPrice a r"
proof -
  have "0 < 1 + (r - 0.5) * 0.1" using assms(2) by (simp add: field_simps)
  with assms(1) show ?thesis by (simp add: mockPrice_def)
qed

lemma newTrailingStop_pos:
  assumes "0 < c"
  shows "0 < newTrailingStop c x"
proof -
  have "trailingPercent x \<le> 50" by (simp add: trailingPercent_bounds)
  then have "0 < 1 - trailingPercent x / 100" by simp
  with assms show ?thesis by (simp add: newTrailingStop_def)
qed

lemma monitor_row_frame:
  "p_id (monitor_row env db p) = p_id p \<and> avg_cost (monitor_row env db p) = avg_cost p
   \<and> is_open (monitor_row env db p) = is_open p
   \<and> p_order_id (monitor_row env db p) = p_order_id p
   \<and> p_quantity (monitor_row env db p) = p_quantity p"
  by (simp add: monitor_row_def refreshed_def Let_def split: option.splits)

lemma monitor_row_stop_cases:
  "monitor_row env db p = p
   \<or> (\<exists>pct. order_trailing_percent db p = Some pct
        \<and> stop_moves p (newTrailingStop (mockPrice (avg_cost p) (random env (p_id p))) pct)
        \<and> \<not> update_fails env (p_id p)
        \<and> monitor_row env db p
            = refreshed p (mockPrice (avg_cost p) (random env (p_id p)))
                (newTrailingStop (mockPrice (avg_cost p) (random env (p_id p))) pct) p)"
  by (simp add: monitor_row_def Let_def split: option.splits)

lemma stop_moves_pos:
  assumes "0 < candidate"
  shows "stop_moves p candidate \<longleftrightarrow>
           trailing_stop_price p = None
           \<or> (\<exists>s. trailing_stop_price p = Some s \<and> s < candidate)"
  using assms by (auto simp: stop_moves_def split: option.splits)

lemma monitor_row_mono:
  assumes "0 < avg_cost p" and "0 \<le> random env (p_id p)" and "random env (p_id p) < 1"
    and "trailing_stop_price p = Some s"
  shows "\<exists>s'. trailing_stop_price (monitor_row env db p) = Some s' \<and> s \<le> s'"
proof -
  let ?c = "mockPrice (avg_cost p) (random env (p_id p))"
  have c: "0 < ?c" using assms(1-3) by (rule mockPrice_pos)
  from monitor_row_stop_cases [of env db p] show ?thesis
  proof
    assume "monitor_row env db p = p"
    with assms(4) show ?thesis by simp
  next
    assume "\<exists>pct. order_trailing_percent db p = Some pct
        \<and> stop_moves p (newTrailingStop ?c pct)
        \<and> \<not> update_fails env (p_id p)
        \<and> monitor_row env db p = refreshed p ?c (newTrailingStop ?c pct) p"
    then obtain pct where mv: "stop_moves p (newTrailingStop ?c pct)"
      and r: "monitor_row env db p = refreshed p ?c (newTrailingStop ?c pct) p" by blast
    have "0 < newTrailingStop ?c pct" using c by (rule newTrailingStop_pos)
    with mv assms(4) have "s < newTrailingStop ?c pct" by (simp add: stop_moves_pos)
    with r show ?thesis by (simp add: refreshed_def)
  qed
qed

lemma pass_row:
  assumes "distinct (map p_id (positions_tbl db))" and "i < length (positions_tbl db)"
  shows "positions_tbl (fst (update_trailing_stops env db)) ! i
           = monitor_row env db (positions_tbl db ! i)"
  using assms by (simp add: update_trailing_stops_rows)

lemma pass_frame:
  assumes "distinct (map p_id (positions_tbl db))"
  shows "map p_id (positions_tbl (fst (update_trailing_stops env db))) = map p_id (positions_tbl db)
         \<and> length (positions_tbl (fst (update_trailing_stops env db))) = length (positions_tbl db)"
  using assms by (simp add: update_trailing_stops_rows monitor_row_frame)

lemma run_monitor_mono:
  assumes "distinct (map p_id (positions_tbl db))" and "i < length (positions_tbl db)"
    and "0 < avg_cost (positions_tbl db ! i)"
    and "\<forall>env\<in>set envs. 0 \<le> random env (p_id (positions_tbl db ! i))
                          \<and> random env (p_id (positions_tbl db ! i)) < 1"
    and "trailing_stop_price (positions_tbl db ! i) = Some s"
  shows "\<exists>s'. trailing_stop_price (positions_tbl (run_monitor envs db) ! i) = Some s' \<and> s \<le> s'"
  using assms
proof (induction envs arbitrary: db s)
  case Nil
  then show ?case by (simp add: run_monitor_def)
next
  case (Cons env envs)
  let ?db = "fst (update_trailing_stops env db)"
  let ?p = "positions_tbl db ! i"
  have row: "positions_tbl ?db ! i = monitor_row env db ?p"
    using Cons.prems(1,2) by (rule pass_row)
  have d: "distinct (map p_id (positions_tbl ?db))" and l: "i < length (positions_tbl ?db)"
    using Cons.prems(1,2) by (simp_all add: pass_frame)
  have a: "0 < avg_cost (positions_tbl ?db ! i)"
    using Cons.prems(3) by (simp add: row monitor_row_frame)
  have rnd: "\<forall>e\<in>set envs. 0 \<le> random e (p_id (positions_tbl ?db ! i))
                          \<and> random e (p_id (positions_tbl ?db ! i)) < 1"
    using Cons.prems(4) by (simp add: row monitor_row_frame)
  from Cons.prems(4) have "0 \<le> random env (p_id ?p)" and "random env (p_id ?p) < 1" by simp_all
  from monitor_row_mono [OF Cons.prems(3) this Cons.prems(5), of db]
  obtain s1 where s1: "trailing_stop_price (positions_tbl ?db ! i) = Some s1" and le: "s \<le> s1"
    by (auto simp: row)
  from Cons.IH [OF d l a rnd s1]
  obtain s' where "trailing_stop_price (positions_tbl (run_monitor envs ?db) ! i) = Some s'"
    and "s1 \<le> s'" by blast
  with le show ?case by (auto simp: run_monitor_def)
qed

text \<open>
  Claim C2, amended. In a store whose position ids are distinct (the primary key), for a
  position with a positive average cost and draws of \<open>Math.random()\<close> in [0, 1): one
  update-trailing-stops pass changes the stored stop only for a selected position (open,
  with a trailing-stop percentage on its order), only to the candidate
  \<open>currentPrice * (1 - t / 100)\<close>, \<open>t\<close> being the percentage of the order read as 5 when
  it is 0 and then clamped to [0.1, 50], and only when no stop is set or the candidate
  exceeds the stored stop; a percentage within [0.1, 50] is used as it is. Over any
  sequence of passes a stop that is set stays set and does not decrease. The theorem does
  not need the position to be long.
\<close>

theorem trailing_stop_never_decreases:
  assumes "distinct (map p_id (positions_tbl db))"
    and "i < length (positions_tbl db)"
    and "p = positions_tbl db ! i"
    and "0 < avg_cost p"
    and "\<forall>e\<in>set (env # envs). 0 \<le> random e (p_id p) \<and> random e (p_id p) < 1"
    and "currentPrice = mockPrice (avg_cost p) (random env (p_id p))"
    and "p' = positions_tbl (fst (update_trailing_stops env db)) ! i"
  shows "(trailing_stop_price p' \<noteq> trailing_stop_price p \<longrightarrow>
            (\<exists>pct. order_trailing_percent db p = Some pct
               \<and> trailing_stop_price p'
                   = Some (currentPrice
                           * (1 - max 0.1 (min 50 (if pct = 0 then 5 else pct)) / 100))
               \<and> (0.1 \<le> pct \<and> pct \<le> 50 \<longrightarrow>
                    trailing_stop_price p' = Some (currentPrice * (1 - pct / 100)))
               \<and> (trailing_stop_price p = None
                    \<or> (\<exists>s. trailing_stop_price p = Some s
                            \<and> s < currentPrice
                                  * (1 - max 0.1 (min 50 (if pct = 0 then 5 else pct)) / 100)))))
         \<and> (\<forall>s. trailing_stop_price p = Some s \<longrightarrow>
               (\<exists>s'. trailing_stop_price (positions_tbl (run_monitor (env # envs) db) ! i) = Some s'
                     \<and> s \<le> s'))"
proof (intro conjI impI allI)
  assume changed: "trailing_stop_price p' \<noteq> trailing_stop_price p"
  have p': "p' = monitor_row env db p"
    using assms(1,2,3,7) by (simp add: pass_row)
  from assms(4,5) have c: "0 < currentPrice"
    unfolding assms(6) by (intro mockPrice_pos) simp_all
  from monitor_row_stop_cases [of env db p] changed p'
  obtain pct where sel: "order_trailing_percent db p = Some pct"
    and mv: "stop_moves p (newTrailingStop currentPrice pct)"
    and r: "p' = refreshed p currentPrice (newTrailingStop currentPrice pct) p"
    unfolding assms(6) by auto
  have t: "newTrailingStop currentPrice pct
      = currentPrice * (1 - max 0.1 (min 50 (if pct = 0 then 5 else pct)) / 100)"
    by (simp add: newTrailingStop_def trailingPercent_def or_default_def)
  have "0 < newTrailingStop currentPrice pct" using c by (rule newTrailingStop_pos)
  with mv have m: "trailing_stop_price p = None
      \<or> (\<exists>s. trailing_stop_price p = Some s \<and> s < newTrailingStop currentPrice pct)"
    by (simp add: stop_moves_pos)
  have n: "trailing_stop_price p' = Some (newTrailingStop currentPrice pct)"
    by (simp add: r refreshed_def)
  have "0.1 \<le> pct \<and> pct \<le> 50 \<longrightarrow>
          trailing_stop_price p' = Some (currentPrice * (1 - pct / 100))"
    unfolding n t by auto
  with sel m n
  show "\<exists>pct. order_trailing_percent db p = Some pct
               \<and> trailing_stop_price p'
                   = Some (currentPrice
                           * (1 - max 0.1 (min 50 (if pct = 0 then 5 else pct)) / 100))
               \<and> (0.1 \<le> pct \<and> pct \<le> 50 \<longrightarrow>
                    trailing_stop_price p' = Some (currentPrice * (1 - pct / 100)))
               \<and> (trailing_stop_price p = None
                    \<or> (\<exists>s. trailing_stop_price p = Some s
                            \<and> s < currentPrice
                                  * (1 - max 0.1 (min 50 (if pct = 0 then 5 else pct)) / 100)))"
    unfolding t by blast
next
  fix s assume "trailing_stop_price p = Some s"
  with assms(1-5) run_monitor_mono [of db i "env # envs" s]
  show "\<exists>s'. trailing_stop_price (positions_tbl (run_monitor (env # envs) db) ! i) = Some s'
                     \<and> s \<le> s'"
    by simp
qed

lemma example_order_fields:
  "o_id example_order = 50" "o_trailing_stop_percent example_order = Some 5"
  by (simp_all add: example_order_def)

lemma example_position_fields:
  "p_id example_position = 60" "p_order_id example_position = Some 50"
  "is_open example_position" "avg_cost example_position = 110"
  "p_quantity example_position = 10" "trailing_stop_price example_position = Some 100"
  by (simp_all add: example_position_def)

lemma example_portfolio_fields:
  "positions_tbl example_portfolio = [example_position]"
  "orders_tbl example_portfolio = [example_order]"
  by (simp_all add: example_portfolio_def)

lemma example_prices: "mockPrice 110 (1 / 2) = 110" "mockPrice 110 (1 / 22) = 105"
  "newTrailingStop 110 5 = 209 / 2" "newTrailingStop 105 5 = 399 / 4"
  by (simp_all add: mockPrice_def newTrailingStop_def trailingPercent_def or_default_def)

lemma example_position_1_fields:
  "p_id example_position_1 = 60" "p_order_id example_position_1 = Some 50"
  "is_open example_position_1" "avg_cost example_position_1 = 110"
  "p_quantity example_position_1 = 10" "trailing_stop_price example_position_1 = Some (209 / 2)"
  "current_price example_position_1 = Some 110" "unrealized_pnl example_position_1 = Some 0"
  by (simp_all add: example_position_1_def refreshed_def example_position_def)

lemma example_pass_1:
  "fst (update_trailing_stops (example_draw (1 / 2)) example_portfolio)
     = example_portfolio\<lparr>positions_tbl := [example_position_1]\<rparr>"
  by (simp add: update_trailing_stops_rows example_portfolio_fields example_position_fields
      example_order_fields monitor_row_def order_trailing_percent_def example_draw_def
      example_prices stop_moves_def example_position_1_def)

lemma example_pass_2:
  "fst (update_trailing_stops (example_draw (1 / 22))
          (example_portfolio\<lparr>positions_tbl := [example_position_1]\<rparr>))
     = example_portfolio\<lparr>positions_tbl := [example_position_1]\<rparr>"
  by (simp add: update_trailing_stops_rows example_portfolio_fields example_position_1_fields
      example_order_fields monitor_row_def order_trailing_percent_def example_draw_def
      example_prices stop_moves_def)

lemma example_portfolio_at_fields:
  "positions_tbl (example_portfolio_at pct stop) = [example_position\<lparr>trailing_stop_price := stop\<rparr>]"
  "orders_tbl (example_portfolio_at pct stop) = [example_order\<lparr>o_trailing_stop_percent := Some pct\<rparr>]"
  by (simp_all add: example_portfolio_at_def)

lemma example_pass_at:
  "positions_tbl (fst (update_trailing_stops (example_draw (1 / 2)) (example_portfolio_at pct stop)))
     = [monitor_row (example_draw (1 / 2)) (example_portfolio_at pct stop)
          (example_position\<lparr>trailing_stop_price := stop\<rparr>)]"
  by (simp add: update_trailing_stops_rows example_portfolio_at_fields example_position_fields)

lemma example_rows_at:
  "trailing_stop_price (monitor_row (example_draw (1 / 2)) (example_portfolio_at 10 (Some 90))
     (example_position\<lparr>trailing_stop_price := Some 90\<rparr>)) = Some 99"
  "trailing_stop_price (monitor_row (example_draw (1 / 2)) (example_portfolio_at 80 (Some 10))
     (example_position\<lparr>trailing_stop_price := Some 10\<rparr>)) = Some 55"
  "trailing_stop_price (monitor_row (example_draw (1 / 2)) (example_portfolio_at 0 None)
     (example_position\<lparr>trailing_stop_price := None\<rparr>)) = Some (209 / 2)"
  by (simp_all add: monitor_row_def order_trailing_percent_def example_portfolio_at_fields
      example_position_fields example_order_fields example_draw_def example_prices
      newTrailingStop_def trailingPercent_def or_default_def stop_moves_def refreshed_def)

text \<open>
  The theorem on the worked position, whose order has the percentage 5: the price moves
  to 110 and the stop goes from 100 to 104.5; the price then drops to 105 and the stop
  stays at 104.5. With the percentage 10 and a stored stop of 90 the price 110 moves the
  stop to 99.
\<close>

theorem trailing_stop_never_decreases_witness:
  "mockPrice 110 (1 / 2) = 110 \<and> mockPrice 110 (1 / 22) = 105
   \<and> trailing_stop_price (positions_tbl (run_monitor [example_draw (1 / 2)] example_portfolio) ! 0)
       = Some (209 / 2)
   \<and> trailing_stop_price
        (positions_tbl (run_monitor [example_draw (1 / 2), example_draw (1 / 22)] example_portfolio) ! 0)
       = Some (209 / 2)
   \<and> trailing_stop_price
        (positions_tbl (run_monitor [example_draw (1 / 2)] (example_portfolio_at 10 (Some 90))) ! 0)
       = Some 99"
  using trailing_stop_never_decreases
    [of example_portfolio 0 example_position "example_draw (1 / 2)" "[example_draw (1 / 22)]"
        110 "positions_tbl (fst (update_trailing_stops (example_draw (1 / 2)) example_portfolio)) ! 0"]
    trailing_stop_never_decreases
    [of "example_portfolio_at 10 (Some 90)" 0 "example_position\<lparr>trailing_stop_price := Some 90\<rparr>"
        "example_draw (1 / 2)" "[]" 110
        "positions_tbl (fst (update_trailing_stops (example_draw (1 / 2))
           (example_portfolio_at 10 (Some 90)))) ! 0"]
  by (simp add: run_monitor_def example_pass_1 example_pass_2 example_prices
      example_position_1_fields example_pass_at example_rows_at)

text \<open>
  The claim as stated fails: with the percentage 80 on the order and a stored stop of 10
  the price 110 moves the stop to 55, where the formula with the configured percentage
  gives 22; with the percentage 0 and no stored stop it sets the stop to 104.5, where
  the formula gives 110.
\<close>

theorem trailing_percent_counterexample:
  "order_trailing_percent (example_portfolio_at 80 (Some 10))
       (positions_tbl (example_portfolio_at 80 (Some 10)) ! 0) = Some 80
   \<and> mockPrice 110 (1 / 2) = 110
   \<and> trailing_stop_price
        (positions_tbl (run_monitor [example_draw (1 / 2)] (example_portfolio_at 80 (Some 10))) ! 0)
       = Some 55
   \<and> (110::real) * (1 - 80 / 100) = 22
   \<and> order_trailing_percent (example_portfolio_at 0 None)
       (positions_tbl (example_portfolio_at 0 None) ! 0) = Some 0
   \<and> trailing_stop_price
        (positions_tbl (run_monitor [example_draw (1 / 2)] (example_portfolio_at 0 None)) ! 0)
       = Some (209 / 2)
   \<and> (110::real) * (1 - 0 / 100) = 110"
  by (simp add: run_monitor_def example_pass_at example_rows_at example_prices
      order_trailing_percent_def example_portfolio_at_fields example_position_fields
      example_order_fields)

text \<open>
  Claim C10, amended. On an update-trailing-stops pass a selected position (open, with a
  trailing-stop percentage on its order) has its current price set to the price of the
  pass, its unrealized P and L set to (currentPrice - avgCost) * quantity and its stop
  set to the candidate exactly when the stop moves (no stop is stored, or the stored stop
  is 0, or the candidate exceeds it) and the update succeeds; otherwise the row is left as
  it was, price and P and L included.
\<close>

theorem price_and_pnl_refreshed_with_stop:
  assumes "distinct (map p_id (positions_tbl db))"
    and "i < length (positions_tbl db)"
    and "p = positions_tbl db ! i"
    and "order_trailing_percent db p = Some pct"
    and "currentPrice = mockPrice (avg_cost p) (random env (p_id p))"
    and "p' = positions_tbl (fst (update_trailing_stops env db)) ! i"
  shows "(stop_moves p (newTrailingStop currentPrice pct) \<and> \<not> update_fails env (p_id p) \<longrightarrow>
            current_price p' = Some currentPrice
            \<and> unrealized_pnl p' = Some ((currentPrice - avg_cost p) * real_of_int (p_quantity p))
            \<and> trailing_stop_price p' = Some (newTrailingStop currentPrice pct))
         \<and> (\<not> (stop_moves p (newTrailingStop currentPrice pct) \<and> \<not> update_fails env (p_id p)) \<longrightarrow>
            p' = p)"
proof -
  have "p' = monitor_row env db p"
    using assms(1,2,3,6) by (simp add: pass_row)
  then show ?thesis
    using assms(4,5) by (simp add: monitor_row_def Let_def refreshed_def)
qed

text \<open>
  The theorem on the worked position: the first pass (price 110) writes price, P and L and
  stop; the second (price 105) leaves the row as it was.
\<close>

theorem price_and_pnl_refreshed_with_stop_witness:
  "current_price (positions_tbl (fst (update_trailing_stops (example_draw (1 / 2)) example_portfolio)) ! 0)
     = Some 110
   \<and> unrealized_pnl (positions_tbl (fst (update_trailing_stops (example_draw (1 / 2)) example_portfolio)) ! 0)
     = Some 0
   \<and> trailing_stop_price (positions_tbl (fst (update_trailing_stops (example_draw (1 / 2)) example_portfolio)) ! 0)
     = Some (209 / 2)
   \<and> positions_tbl (fst (update_trailing_stops (example_draw (1 / 22))
          (example_portfolio\<lparr>positions_tbl := [example_position_1]\<rparr>))) ! 0
     = example_position_1"
proof -
  have sel: "order_trailing_percent example_portfolio example_position = Some 5"
    by (simp add: order_trailing_percent_def example_position_fields example_portfolio_fields
        example_order_fields)
  have sel1: "order_trailing_percent (example_portfolio\<lparr>positions_tbl := [example_position_1]\<rparr>)
      example_position_1 = Some 5"
    by (simp add: order_trailing_percent_def example_position_1_fields example_portfolio_fields
        example_order_fields)
  have d: "distinct (map p_id (positions_tbl example_portfolio))"
    "distinct (map p_id (positions_tbl (example_portfolio\<lparr>positions_tbl := [example_position_1]\<rparr>)))"
    by (simp_all add: example_portfolio_fields)
  have i: "0 < length (positions_tbl example_portfolio)"
    "0 < length (positions_tbl (example_portfolio\<lparr>positions_tbl := [example_position_1]\<rparr>))"
    by (simp_all add: example_portfolio_fields)
  have p: "example_position = positions_tbl example_portfolio ! 0"
    "example_position_1 = positions_tbl (example_portfolio\<lparr>positions_tbl := [example_position_1]\<rparr>) ! 0"
    by (simp_all add: example_portfolio_fields)
  have c: "110 = mockPrice (avg_cost example_position)
               (random (example_draw (1 / 2)) (p_id example_position))"
    "105 = mockPrice (avg_cost example_position_1)
               (random (example_draw (1 / 22)) (p_id example_position_1))"
    by (simp_all add: example_position_fields example_position_1_fields example_draw_def
        example_prices)
  note a = price_and_pnl_refreshed_with_stop [OF d(1) i(1) p(1) sel c(1) refl]
  note b = price_and_pnl_refreshed_with_stop [OF d(2) i(2) p(2) sel1 c(2) refl]
  from a b show ?thesis
    by (simp add: example_prices stop_moves_def example_position_fields
        example_position_1_fields example_draw_def)
qed

text \<open>
  The claim as stated fails on the worked position: in the second pass the price is 105
  and the candidate 99.75 does not exceed the stop 104.5, and the row keeps the price 110
  and the P and L 0 of the first pass.
\<close>

theorem price_refresh_counterexample:
  "mockPrice 110 (1 / 22) = 105
   \<and> order_trailing_percent (run_monitor [example_draw (1 / 2)] example_portfolio)
        (positions_tbl (run_monitor [example_draw (1 / 2)] example_portfolio) ! 0) = Some 5
   \<and> current_price
        (positions_tbl (run_monitor [example_draw (1 / 2), example_draw (1 / 22)] example_portfolio) ! 0)
       = Some 110
   \<and> unrealized_pnl
        (positions_tbl (run_monitor [example_draw (1 / 2), example_draw (1 / 22)] example_portfolio) ! 0)
       = Some 0"
  by (simp add: run_monitor_def example_pass_1 example_pass_2 example_prices
      example_position_1_fields order_trailing_percent_def example_portfolio_fields
      example_order_fields)

section \<open>Average cost of positions\<close>

lemma positive_costs_execute_signal:
  assumes "positive_costs (positions_tbl (st s))"
  shows "positive_costs (positions_tbl (st (execute_signal env settings (sg, r) s)))"
proof (cases "price_at_signal sg")
  case (Finite price)
  with assms show ?thesis
    by (auto simp: execute_signal_def Let_def record_execution_def new_position_def
        positive_costs_def not_le)
next
  case NaN
  with assms show ?thesis by (simp add: execute_signal_def)
next
  case PosInfinity
  with assms show ?thesis by (simp add: execute_signal_def)
next
  case NegInfinity
  with assms show ?thesis by (simp add: execute_signal_def)
qed

lemma positive_costs_fold_execute_signal:
  "positive_costs (positions_tbl (st s)) \<Longrightarrow>
     positive_costs (positions_tbl (st (fold (execute_signal env settings) sigs s)))"
proof (induction sigs arbitrary: s)
  case Nil
  then show ?case by simp
next
  case (Cons x sigs)
  obtain sg r where x: "x = (sg, r)" by (cases x)
  from Cons.prems have "positive_costs (positions_tbl (st (execute_signal env settings (sg, r) s)))"
    by (rule positive_costs_execute_signal)
  from Cons.IH [OF this] show ?case by (simp add: x)
qed

lemma positive_costs_process_user:
  assumes "positive_costs (positions_tbl (st s))"
  shows "positive_costs (positions_tbl (st (process_user env settings s)))"
  using process_user_cases [of env settings s] assms
  by (auto simp: positive_costs_fold_execute_signal)

lemma positive_costs_fold_process_user:
  "positive_costs (positions_tbl (st s)) \<Longrightarrow>
     positive_costs (positions_tbl (st (fold (process_user env) users s)))"
  by (induction users arbitrary: s) (simp_all add: positive_costs_process_user)

lemma avg_costs_monitor_step:
  "map avg_cost (fst (monitor_step env sel (tbl, ups))) = map avg_cost tbl"
  by (cases sel) (auto simp: monitor_step_def monitor_position_def refreshed_def)

lemma avg_costs_fold_monitor_step:
  "map avg_cost (fst (fold (monitor_step env) sels acc)) = map avg_cost (fst acc)"
proof (induction sels arbitrary: acc)
  case Nil
  then show ?case by simp
next
  case (Cons sel sels)
  obtain tbl ups where acc: "acc = (tbl, ups)" by (cases acc)
  show ?case by (simp add: Cons.IH acc avg_costs_monitor_step)
qed

lemma positive_costs_map: "positive_costs tbl \<longleftrightarrow> list_all (\<lambda>c. 0 < c) (map avg_cost tbl)"
  by (simp add: positive_costs_def list_all_iff)

text \<open>
  The average cost of a position is a positive price, as claim C2 assumes: the
  execute-pending-signals pass stores the validated price of the signal as the average
  cost of the position it creates, so a table of positions with positive average costs
  stays one; and the update-trailing-stops pass changes no average cost.
\<close>

theorem positions_keep_positive_cost:
  "(positive_costs (positions_tbl db) \<longrightarrow>
      positive_costs (positions_tbl (st (execute_pending_signals env db))))
   \<and> map avg_cost (positions_tbl (fst (update_trailing_stops menv db)))
       = map avg_cost (positions_tbl db)
   \<and> (positive_costs (positions_tbl db) \<longrightarrow>
      positive_costs (positions_tbl (fst (update_trailing_stops menv db))))"
proof -
  have a: "positive_costs (positions_tbl db) \<longrightarrow>
      positive_costs (positions_tbl (st (execute_pending_signals env db)))"
    using positive_costs_fold_process_user
      [of "\<lparr>st = db, executed_out = [], skipped_out = []\<rparr>" env]
    by (simp add: execute_pending_signals_def)
  have b: "map avg_cost (positions_tbl (fst (update_trailing_stops menv db)))
       = map avg_cost (positions_tbl db)"
    using avg_costs_fold_monitor_step [of menv "trailing_positions db" "(positions_tbl db, [])"]
    by (cases "fold (monitor_step menv) (trailing_positions db) (positions_tbl db, [])")
       (simp add: update_trailing_stops_def)
  from a b show ?thesis by (simp add: positive_costs_map)
qed

text \<open>
  The theorem on the worked store (the position created at the price 100) and on the worked
  position.
\<close>

theorem positions_keep_positive_cost_witness:
  "positive_costs (positions_tbl (example_store (example_settings (Some 1))
       [example_signal 3 bb_breakout_up (Finite 100)] []))
   \<and> map avg_cost (positions_tbl (st (execute_pending_signals (example_env ''10:00:00'' (\<lambda>_. False))
       (example_store (example_settings (Some 1))
          [example_signal 3 bb_breakout_up (Finite 100)] [])))) = [100]
   \<and> positive_costs (positions_tbl (st (execute_pending_signals (example_env ''10:00:00'' (\<lambda>_. False))
       (example_store (example_settings (Some 1))
          [example_signal 3 bb_breakout_up (Finite 100)] []))))
   \<and> positive_costs (positions_tbl (fst (update_trailing_stops (example_draw (1 / 2)) example_portfolio)))"
  using positions_keep_positive_cost
    [where db = "example_store (example_settings (Some 1))
          [example_signal 3 bb_breakout_up (Finite 100)] []"
       and env = "example_env ''10:00:00'' (\<lambda>_. False)"]
    positions_keep_positive_cost
    [where db = example_portfolio and menv = "example_draw (1 / 2)"]
  by (simp add: example_pass_simps new_position_def positive_costs_def
      example_portfolio_fields example_position_fields)

end
